theory Spec2Isabelle
  imports Complex_Main "HOL-Library.Sublist"
begin

section \<open>Frost predictor and decision loop: a shallow embedding\<close>

text \<open>
  The development follows two JavaScript services of the repository:
  \<^item> \<^verbatim>\<open>src/inferencelgbm/frost-lgbm-wasm-server.js\<close>: feature engineering, batching and
    the extraction of probabilities from the model's output;
  \<^item> \<^verbatim>\<open>src/sta/staserver.js\<close>: the poll loop that thresholds the probabilities into
    decisions and publishes them.

  Conventions of the embedding.
  \<^item> A JavaScript number is an IEEE-754 double. The finite ones are idealised as exact
    reals (rounding and overflow are not modelled); the three non-finite ones are
    constructors of their own, so that every \<^verbatim>\<open>isFinite\<close> test of the source is a
    case distinction of the model.
  \<^item> \<^verbatim>\<open>null\<close> and \<^verbatim>\<open>undefined\<close> are values of the model wherever the source tests
    for them.
  \<^item> Functions of the host (\<^verbatim>\<open>Date.parse\<close>, \<^verbatim>\<open>toISOString\<close>, \<^verbatim>\<open>localeCompare\<close>,
    \<^verbatim>\<open>toFixed\<close>) are parameters of the functions that call them.
  \<^item> A thrown exception is the left summand of the result.
\<close>

subsection \<open>JavaScript values\<close>

datatype number = Fin real | PosInf | NegInf | NaN

text \<open>The values a JSON field or an array slot holds here. Strings and objects in a
  numeric position are left out: the services never produce them.\<close>

datatype jsval = Undefined | Null | Bool bool | Num number

text \<open>\<^verbatim>\<open>Number(v)\<close>\<close>

fun ToNumber :: "jsval \<Rightarrow> number" where
  "ToNumber Undefined = NaN"
| "ToNumber Null = Fin 0"
| "ToNumber (Bool b) = Fin (if b then 1 else 0)"
| "ToNumber (Num n) = n"

text \<open>\<^verbatim>\<open>Number.isFinite(n) ? n : alt\<close>, the shape of every finiteness test in the source.\<close>

fun finite_or :: "'a \<Rightarrow> (real \<Rightarrow> 'a) \<Rightarrow> number \<Rightarrow> 'a" where
  "finite_or alt f (Fin r) = f r"
| "finite_or alt f n = alt"

subsection \<open>The scaler\<close>

text \<open>\<^verbatim>\<open>SCALER = { mean, scale }\<close>, or \<^verbatim>\<open>null\<close> when no scaler file was loaded.\<close>

record scaler =
  mean :: "real list"
  scale :: "real list"

text \<open>
\<^verbatim>\<open>
function applyScaler(vec) {
  if (!SCALER) return vec;
  const { mean, scale } = SCALER;
  if (mean.length !== vec.length || scale.length !== vec.length) return vec;
  return vec.map((v, i) => (v - mean[i]) / (scale[i] || 1));
}
\<close>
  \<^verbatim>\<open>scale[i] || 1\<close> replaces a zero scale by 1.
\<close>

definition applyScaler :: "scaler option \<Rightarrow> real list \<Rightarrow> real list" where
  "applyScaler SCALER vec =
     (case SCALER of
        None \<Rightarrow> vec
      | Some s \<Rightarrow>
          if length (mean s) \<noteq> length vec \<or> length (scale s) \<noteq> length vec then vec
          else map (\<lambda>(v, i). (v - mean s ! i) / (if scale s ! i = 0 then 1 else scale s ! i))
                 (zip vec [0..<length vec]))"

subsection \<open>Arithmetic and comparison on numbers\<close>

text \<open>Division of two finite numbers, the divisor being \<open>+0\<close> when it is zero.\<close>

definition js_div :: "real \<Rightarrow> real \<Rightarrow> number" where
  "js_div x y =
     (if y \<noteq> 0 then Fin (x / y)
      else if 0 < x then PosInf else if x < 0 then NegInf else NaN)"

text \<open>\<^verbatim>\<open>x - n\<close> for a finite \<open>x\<close>.\<close>

fun js_sub :: "real \<Rightarrow> number \<Rightarrow> number" where
  "js_sub x (Fin y) = Fin (x - y)"
| "js_sub x PosInf = NegInf"
| "js_sub x NegInf = PosInf"
| "js_sub x NaN = NaN"

text \<open>\<^verbatim>\<open>a < b\<close>, \<^verbatim>\<open>a > b\<close> and \<^verbatim>\<open>a >= b\<close>: false as soon as one side is \<^verbatim>\<open>NaN\<close>.\<close>

fun js_lt :: "number \<Rightarrow> number \<Rightarrow> bool" where
  "js_lt NaN b = False"
| "js_lt a NaN = False"
| "js_lt (Fin x) (Fin y) = (x < y)"
| "js_lt a PosInf = (a \<noteq> PosInf)"
| "js_lt NegInf b = (b \<noteq> NegInf)"
| "js_lt a b = False"

definition js_gt :: "number \<Rightarrow> number \<Rightarrow> bool" where
  "js_gt a b = js_lt b a"

definition js_ge :: "number \<Rightarrow> number \<Rightarrow> bool" where
  "js_ge a b = (a \<noteq> NaN \<and> b \<noteq> NaN \<and> \<not> js_lt a b)"

text \<open>\<^verbatim>\<open>Math.max(a, b)\<close>\<close>

definition Math_max :: "number \<Rightarrow> number \<Rightarrow> number" where
  "Math_max a b = (if a = NaN \<or> b = NaN then NaN else if js_lt a b then b else a)"

text \<open>A nullable finite number as a JavaScript value.\<close>

fun of_nullable :: "real option \<Rightarrow> jsval" where
  "of_nullable None = Null"
| "of_nullable (Some r) = Num (Fin r)"

subsection \<open>Dew point and hour bins\<close>

text \<open>
\<^verbatim>\<open>
function dewpointC(tC, rhPct) {
  if (tC == null || rhPct == null) return null;
  const a = 17.62, b = 243.12;
  const gamma = (a * tC) / (b + tC) + Math.log(Math.max(1e-6, rhPct / 100));
  return (b * gamma) / (a - gamma);
}
\<close>
  Both arguments are \<^verbatim>\<open>null\<close> or finite at every call. The argument of the
  logarithm is at least \<open>1e-6\<close>, so the logarithm is finite. When \<open>b + tC\<close> is zero
  the first quotient is infinite, \<open>gamma\<close> is infinite and the result is the quotient
  of two infinities, \<^verbatim>\<open>NaN\<close>.
\<close>

definition dewpointC :: "real option \<Rightarrow> real option \<Rightarrow> jsval" where
  "dewpointC tC rhPct =
     (case (tC, rhPct) of
        (Some t, Some rh) \<Rightarrow>
          (let a = 17.62; b = 243.12 in
           case js_div (a * t) (b + t) of
             Fin q \<Rightarrow>
               (let gamma = q + ln (max (1 / 10 ^ 6) (rh / 100))
                in Num (js_div (b * gamma) (a - gamma)))
           | _ \<Rightarrow> Num NaN)
      | _ \<Rightarrow> Null)"

text \<open>
  \<^verbatim>\<open>new Date(s).getUTCHours()\<close>: the host's parser \<open>dparse\<close> gives the time value in
  milliseconds, or nothing for an invalid date; the hour of a time value is
  \<open>floor(t / 3600000) mod 24\<close>, and \<^verbatim>\<open>NaN\<close> for an invalid date.
\<close>

definition getUTCHours :: "int option \<Rightarrow> int option" where
  "getUTCHours d = map_option (\<lambda>t. (t div 3600000) mod 24) d"

text \<open>
\<^verbatim>\<open>
function hourBin4(dateIso) {
  const d = new Date(dateIso);
  const h = d.getUTCHours();
  const bin = Math.floor(h / 6); // 0..3
  return [0,1,2,3].map(i => (i === bin ? 1 : 0));
}
\<close>
\<close>

definition hourBin4 :: "(string \<Rightarrow> int option) \<Rightarrow> string \<Rightarrow> real list" where
  "hourBin4 dparse dateIso =
     (let d = dparse dateIso;
          h = getUTCHours d;
          bin = map_option (\<lambda>h. h div 6) h
      in map (\<lambda>i. if Some i = bin then 1 else 0) [0, 1, 2, 3])"

subsection \<open>Windows over a sensor's series\<close>

text \<open>One sample \<^verbatim>\<open>{ t, iso, tC, hPct }\<close>; the field \<^verbatim>\<open>t\<close> is \<open>tms\<close> here.\<close>

record row =
  tms :: int
  iso :: string
  tC :: "real option"
  hPct :: "real option"

text \<open>
\<^verbatim>\<open>
  function sliceHours(h) {
    if (!n) return [];
    const cutoff = last.t - h*3600*1000;
    let i = n - 1;
    while (i >= 0 && rows[i].t >= cutoff) i--;
    return rows.slice(i + 1);
  }
\<close>
  The loop is \<open>scanBack\<close>: it returns the final value of \<open>i\<close>.
\<close>

function scanBack :: "row list \<Rightarrow> int \<Rightarrow> int \<Rightarrow> int" where
  "scanBack rows cutoff i =
     (if 0 \<le> i \<and> cutoff \<le> tms (rows ! nat i) then scanBack rows cutoff (i - 1) else i)"
  by pat_completeness auto
termination
  by (relation "measure (\<lambda>(rows, cutoff, i). nat (i + 1))") auto

declare scanBack.simps [simp del]

definition sliceHours :: "row list \<Rightarrow> int \<Rightarrow> row list" where
  "sliceHours rows h =
     (if rows = [] then []
      else let cutoff = tms (last rows) - h * 3600 * 1000;
               i = scanBack rows cutoff (int (length rows) - 1)
           in drop (nat (i + 1)) rows)"

text \<open>
\<^verbatim>\<open>
  function stats(arr, key) {
    if (!arr.length) return { mean:null,min:null,max:null };
    let sum=0,cnt=0,min=Infinity,max=-Infinity;
    for (const r of arr) {
      const v = r[key];
      if (v == null || !isFinite(v)) continue;
      sum += v; cnt++;
      if (v < min) min = v;
      if (v > max) max = v;
    }
    if (!cnt) return { mean:null,min:null,max:null };
    return { mean: sum/cnt, min, max };
  }
\<close>
  The accumulator \<^verbatim>\<open>sum\<close> is \<open>sm\<close> here.
\<close>

record stats_result =
  st_mean :: jsval
  st_min :: jsval
  st_max :: jsval

fun stats_loop :: "(row \<Rightarrow> real option) \<Rightarrow> row list \<Rightarrow> real \<times> nat \<times> number \<times> number
    \<Rightarrow> real \<times> nat \<times> number \<times> number" where
  "stats_loop key [] acc = acc"
| "stats_loop key (r # arr) (sm, cnt, mn, mx) =
     (case key r of
        None \<Rightarrow> stats_loop key arr (sm, cnt, mn, mx)
      | Some v \<Rightarrow>
          stats_loop key arr
            (sm + v, cnt + 1,
             if js_lt (Fin v) mn then Fin v else mn,
             if js_gt (Fin v) mx then Fin v else mx))"

definition stats :: "row list \<Rightarrow> (row \<Rightarrow> real option) \<Rightarrow> stats_result" where
  "stats arr key =
     (if arr = [] then \<lparr>st_mean = Null, st_min = Null, st_max = Null\<rparr>
      else case stats_loop key arr (0, 0, PosInf, NegInf) of
        (sm, cnt, mn, mx) \<Rightarrow>
          if cnt = 0 then \<lparr>st_mean = Null, st_min = Null, st_max = Null\<rparr>
          else \<lparr>st_mean = Num (Fin (sm / real cnt)), st_min = Num mn, st_max = Num mx\<rparr>)"

text \<open>
\<^verbatim>\<open>
  function lag(hours, key) {
    if (!n) return null;
    const target = last.t - hours*3600*1000;
    for (let i = n-1; i >= 0; i--) {
      if (rows[i].t <= target) {
        const v = rows[i][key];
        return (v == null || !isFinite(v)) ? null : v;
      }
    }
    return null;
  }
\<close>
  The loop returns at the first row, from the end, that is old enough.
\<close>

definition lag :: "row list \<Rightarrow> int \<Rightarrow> (row \<Rightarrow> real option) \<Rightarrow> jsval" where
  "lag rows hours key =
     (if rows = [] then Null
      else let target = tms (last rows) - hours * 3600 * 1000
           in case List.find (\<lambda>r. tms r \<le> target) (rev rows) of
                None \<Rightarrow> Null
              | Some r \<Rightarrow> of_nullable (key r))"

subsection \<open>The feature vector\<close>

text \<open>
  The object \<^verbatim>\<open>feats\<close> of \<^verbatim>\<open>buildFeatureVectorFromWindow\<close>, as the list of its
  properties. \<^verbatim>\<open>last?.tC ?? null\<close> is \<^verbatim>\<open>null\<close> for an empty window. \<^verbatim>\<open>dpNow\<close> is
  \<^verbatim>\<open>null\<close> or a number.
\<close>

definition feats :: "(string \<Rightarrow> int option) \<Rightarrow> row list \<Rightarrow> string \<Rightarrow> (string \<times> jsval) list" where
  "feats dparse rows refIso =
     (let tempNow = (if rows = [] then None else tC (last rows));
          humNow = (if rows = [] then None else hPct (last rows));
          dpNow = (if tempNow \<noteq> None \<and> humNow \<noteq> None then dewpointC tempNow humNow else Null);
          tdSpread = (case (tempNow, dpNow) of (Some t, Num d) \<Rightarrow> Num (js_sub t d) | _ \<Rightarrow> Null);
          w3 = sliceHours rows 3;
          w6 = sliceHours rows 6;
          w12 = sliceHours rows 12;
          t3 = stats w3 tC;
          h3 = stats w3 hPct;
          t6 = stats w6 tC;
          h6 = stats w6 hPct;
          t12 = stats w12 tC;
          h12 = stats w12 hPct;
          tLag1 = lag rows 1 tC;
          tLag3 = lag rows 3 tC;
          tLag6 = lag rows 6 tC;
          hLag1 = lag rows 1 hPct;
          hLag3 = lag rows 3 hPct;
          hLag6 = lag rows 6 hPct;
          hrBins = hourBin4 dparse refIso
      in [(''temperature'', of_nullable tempNow),
          (''humidity'', of_nullable humNow),
          (''dewpoint'', dpNow),
          (''td_spread'', tdSpread),
          (''temp_mean_3h'', st_mean t3), (''temp_min_3h'', st_min t3), (''temp_max_3h'', st_max t3),
          (''hum_mean_3h'', st_mean h3), (''hum_min_3h'', st_min h3), (''hum_max_3h'', st_max h3),
          (''temp_mean_6h'', st_mean t6), (''temp_min_6h'', st_min t6), (''temp_max_6h'', st_max t6),
          (''hum_mean_6h'', st_mean h6), (''hum_min_6h'', st_min h6), (''hum_max_6h'', st_max h6),
          (''temp_mean_12h'', st_mean t12), (''temp_min_12h'', st_min t12),
          (''temp_max_12h'', st_max t12),
          (''hum_mean_12h'', st_mean h12), (''hum_min_12h'', st_min h12),
          (''hum_max_12h'', st_max h12),
          (''temp_lag_1h'', tLag1), (''temp_lag_3h'', tLag3), (''temp_lag_6h'', tLag6),
          (''hum_lag_1h'', hLag1), (''hum_lag_3h'', hLag3), (''hum_lag_6h'', hLag6),
          (''hr_bin_0'', Num (Fin (hrBins ! 0))), (''hr_bin_1'', Num (Fin (hrBins ! 1))),
          (''hr_bin_2'', Num (Fin (hrBins ! 2))), (''hr_bin_3'', Num (Fin (hrBins ! 3)))])"

text \<open>\<^verbatim>\<open>feats[name]\<close>: \<^verbatim>\<open>undefined\<close> for a name that is not a feature.\<close>

definition feat :: "(string \<times> jsval) list \<Rightarrow> string \<Rightarrow> jsval" where
  "feat fs name = (case map_of fs name of None \<Rightarrow> Undefined | Some v \<Rightarrow> v)"

text \<open>\<^verbatim>\<open>console.warn(`[fe] Built ${vec.length} features but expected 36; padding/truncating.`)\<close>\<close>

datatype warning = BuiltButExpected36 nat

text \<open>\<^verbatim>\<open>while (vec.length < 36) vec.push(0);\<close>\<close>

function pad36 :: "real list \<Rightarrow> real list" where
  "pad36 vec = (if length vec < 36 then pad36 (vec @ [0]) else vec)"
  by pat_completeness auto
termination
  by (relation "measure (\<lambda>vec. 36 - length vec)") auto

declare pad36.simps [simp del]

text \<open>
\<^verbatim>\<open>
  const rawVec = FEATURE_NAMES.map(name => {
    const v = feats[name];
    const num = Number(v);
    return Number.isFinite(num) ? num : 0; // simple impute
  });

  const vec = applyScaler(rawVec);
  if (vec.length !== 36) {
    console.warn(`[fe] Built ${vec.length} features but expected 36; padding/truncating.`);
    if (vec.length < 36) while (vec.length < 36) vec.push(0);
    else vec.length = 36;
  }
  return vec;
\<close>
  The result is the vector together with the warnings written to the console.
\<close>

definition rawVec :: "string list \<Rightarrow> (string \<times> jsval) list \<Rightarrow> real list" where
  "rawVec FEATURE_NAMES fs =
     map (\<lambda>name. finite_or 0 (\<lambda>num. num) (ToNumber (feat fs name))) FEATURE_NAMES"

definition buildFeatureVectorFromWindow ::
  "(string \<Rightarrow> int option) \<Rightarrow> string list \<Rightarrow> scaler option \<Rightarrow> row list \<Rightarrow> string
     \<Rightarrow> real list \<times> warning list" where
  "buildFeatureVectorFromWindow dparse FEATURE_NAMES SCALER rows refIso =
     (let vec = applyScaler SCALER (rawVec FEATURE_NAMES (feats dparse rows refIso))
      in if length vec \<noteq> 36
         then (if length vec < 36 then pad36 vec else take 36 vec,
               [BuiltButExpected36 (length vec)])
         else (vec, []))"

text \<open>The 32 names of \<^verbatim>\<open>DEFAULT_FEATURES_36\<close>, used when no feature file is loaded.\<close>

definition DEFAULT_FEATURES_36 :: "string list" where
  "DEFAULT_FEATURES_36 =
     [''temperature'', ''humidity'', ''dewpoint'', ''td_spread'',
      ''temp_mean_3h'', ''temp_min_3h'', ''temp_max_3h'',
      ''hum_mean_3h'', ''hum_min_3h'', ''hum_max_3h'',
      ''temp_mean_6h'', ''temp_min_6h'', ''temp_max_6h'',
      ''hum_mean_6h'', ''hum_min_6h'', ''hum_max_6h'',
      ''temp_mean_12h'', ''temp_min_12h'', ''temp_max_12h'',
      ''hum_mean_12h'', ''hum_min_12h'', ''hum_max_12h'',
      ''temp_lag_1h'', ''temp_lag_3h'', ''temp_lag_6h'',
      ''hum_lag_1h'', ''hum_lag_3h'', ''hum_lag_6h'',
      ''hr_bin_0'', ''hr_bin_1'', ''hr_bin_2'', ''hr_bin_3'']"

subsection \<open>Exceptions and tensors\<close>

datatype exn = Error string | TypeError string | RangeError string | SyntaxError string

text \<open>\<^verbatim>\<open>e.message\<close>\<close>

fun message :: "exn \<Rightarrow> string" where
  "message (Error m) = m"
| "message (TypeError m) = m"
| "message (RangeError m) = m"
| "message (SyntaxError m) = m"

text \<open>\<^verbatim>\<open>String(e)\<close> when the message is empty: the name of the error.\<close>

fun exn_name :: "exn \<Rightarrow> string" where
  "exn_name (Error m) = ''Error''"
| "exn_name (TypeError m) = ''TypeError''"
| "exn_name (RangeError m) = ''RangeError''"
| "exn_name (SyntaxError m) = ''SyntaxError''"

text \<open>A tensor of the runtime: its flat data and its shape.\<close>

record 'a tensor =
  data :: "'a list"
  dims :: "nat list"

subsection \<open>Extraction of the probabilities\<close>

text \<open>\<^verbatim>\<open>/prob/i.test(n)\<close>: the name contains \<^verbatim>\<open>prob\<close>, in any case of the letters.\<close>

fun prob_here :: "string \<Rightarrow> bool" where
  "prob_here (c1 # c2 # c3 # c4 # cs) =
     ((c1 = CHR ''p'' \<or> c1 = CHR ''P'') \<and> (c2 = CHR ''r'' \<or> c2 = CHR ''R'') \<and>
      (c3 = CHR ''o'' \<or> c3 = CHR ''O'') \<and> (c4 = CHR ''b'' \<or> c4 = CHR ''B''))"
| "prob_here cs = False"

fun test_prob :: "string \<Rightarrow> bool" where
  "test_prob [] = False"
| "test_prob (c # cs) = (prob_here (c # cs) \<or> test_prob cs)"

text \<open>The object returned by \<^verbatim>\<open>session.run\<close>: a tensor for each name it has.\<close>

type_synonym run_output = "string \<Rightarrow> number tensor option"

text \<open>\<^verbatim>\<open>o && Array.isArray(o.dims) && o.dims.length === 2\<close>\<close>

definition has2dims :: "run_output \<Rightarrow> string \<Rightarrow> bool" where
  "has2dims runOutput n = (case runOutput n of None \<Rightarrow> False | Some out \<Rightarrow> length (dims out) = 2)"

text \<open>\<^verbatim>\<open>a || b\<close> on names: \<^verbatim>\<open>undefined\<close> and the empty string are falsy.\<close>

fun js_or :: "string option \<Rightarrow> string option \<Rightarrow> string option" where
  "js_or None b = b"
| "js_or (Some a) b = (if a = [] then b else Some a)"

text \<open>\<^verbatim>\<open>names[0]\<close>\<close>

fun first :: "string list \<Rightarrow> string option" where
  "first [] = None"
| "first (n # ns) = Some n"

text \<open>The property key of \<^verbatim>\<open>runOutput[k]\<close>: the key of \<^verbatim>\<open>undefined\<close> is its name.\<close>

fun prop_key :: "string option \<Rightarrow> string" where
  "prop_key None = ''undefined''"
| "prop_key (Some k) = k"

text \<open>
\<^verbatim>\<open>
  const names = session.outputNames;
  let probName =
    names.find(n => /prob/i.test(n)) ||
    names.find(n => {
      const o = runOutput[n];
      return o && Array.isArray(o.dims) && o.dims.length === 2;
    }) ||
    names[0];

  const out  = runOutput[probName] || runOutput[names[0]];
\<close>
\<close>

definition probName :: "string list \<Rightarrow> run_output \<Rightarrow> string option" where
  "probName names runOutput =
     js_or (List.find test_prob names)
       (js_or (List.find (has2dims runOutput) names) (first names))"

definition chosenOutput :: "string list \<Rightarrow> run_output \<Rightarrow> number tensor option" where
  "chosenOutput names runOutput =
     (case runOutput (prop_key (probName names runOutput)) of
        Some out \<Rightarrow> Some out
      | None \<Rightarrow> runOutput (prop_key (first names)))"

text \<open>\<^verbatim>\<open>toNumberArray\<close> copies a typed array of numbers into a plain array.\<close>

definition toNumberArray :: "number list \<Rightarrow> number list" where
  "toNumberArray typed = map (\<lambda>v. v) typed"

text \<open>\<^verbatim>\<open>data[k]\<close>: \<^verbatim>\<open>undefined\<close> beyond the end.\<close>

definition item_at :: "number list \<Rightarrow> nat \<Rightarrow> jsval" where
  "item_at xs k = (if k < length xs then Num (xs ! k) else Undefined)"

text \<open>
\<^verbatim>\<open>
      let best = -Infinity;
      for (let j=0;j<C;j++) best = Math.max(best, data[i*C + j]);
\<close>
\<close>

definition row_best :: "number list \<Rightarrow> nat \<Rightarrow> nat \<Rightarrow> number" where
  "row_best dat C i =
     foldl (\<lambda>best j. Math_max best (ToNumber (item_at dat (i * C + j)))) NegInf [0..<C]"

text \<open>
\<^verbatim>\<open>
  const dims = out.dims || [];
  const data = toNumberArray(out.data);

  if (dims.length === 2) {
    const N = dims[0] || 0, C = dims[1] || 0;
    if (C === 2) {
      const probs = new Array(N);
      for (let i=0;i<N;i++) probs[i] = data[i*2 + 1]; // P(class=1)
      return probs;
    }
    if (C === 1) return data.slice(0, N);
    // Multiclass -> max prob (rare for binary LGBM)
    const probs = new Array(N);
    for (let i=0;i<N;i++) {
      let best = -Infinity;
      for (let j=0;j<C;j++) best = Math.max(best, data[i*C + j]);
      probs[i] = best;
    }
    return probs;
  }

  if (dims.length === 1) {
    const N = dims[0] || data.length;
    return data.slice(0, N);
  }
  return data;
\<close>
  Reading \<^verbatim>\<open>dims\<close> of a missing output throws a \<^verbatim>\<open>TypeError\<close>.
\<close>

definition extractProbs :: "string list \<Rightarrow> run_output \<Rightarrow> exn + jsval list" where
  "extractProbs names runOutput =
     (case chosenOutput names runOutput of
        None \<Rightarrow> Inl (TypeError ''Cannot read properties of undefined'')
      | Some out \<Rightarrow>
          (let ds = dims out; dat = toNumberArray (data out)
           in if length ds = 2 then
                (let N = ds ! 0; C = ds ! 1
                 in if C = 2 then Inr (map (\<lambda>i. item_at dat (i * 2 + 1)) [0..<N])
                    else if C = 1 then Inr (map Num (take N dat))
                    else Inr (map (\<lambda>i. Num (row_best dat C i)) [0..<N]))
              else if length ds = 1 then
                (let N = (if ds ! 0 = 0 then length dat else ds ! 0)
                 in Inr (map Num (take N dat)))
              else Inr (map Num dat)))"

subsection \<open>Batches\<close>

text \<open>\<^verbatim>\<open>h*3600*1000\<close> and \<^verbatim>\<open>x + n\<close> for a finite \<open>x\<close>.\<close>

fun hours_ms :: "number \<Rightarrow> number" where
  "hours_ms (Fin h) = Fin (h * 3600 * 1000)"
| "hours_ms n = n"

fun js_add :: "real \<Rightarrow> number \<Rightarrow> number" where
  "js_add x (Fin y) = Fin (x + y)"
| "js_add x n = n"

text \<open>
  \<^verbatim>\<open>new Date(n)\<close> for a number: the time value is cut to an integer towards zero, and
  the date is invalid when the number is not finite or beyond 8.64e15 in magnitude.
  \<^verbatim>\<open>toISOString\<close> throws a \<^verbatim>\<open>RangeError\<close> on an invalid date.
\<close>

fun new_Date :: "number \<Rightarrow> int option" where
  "new_Date (Fin x) =
     (if \<bar>x\<bar> \<le> 8640000000000000 then Some (if 0 \<le> x then \<lfloor>x\<rfloor> else \<lceil>x\<rceil>) else None)"
| "new_Date n = None"

text \<open>The field \<^verbatim>\<open>ts\<close> of a raw document: a number or a string.\<close>

datatype ts_value = TsNum number | TsStr string

text \<open>Its truthiness: 0, \<^verbatim>\<open>NaN\<close> and the empty string are falsy.\<close>

fun ts_truthy :: "ts_value \<Rightarrow> bool" where
  "ts_truthy (TsNum (Fin x)) = (x \<noteq> 0)"
| "ts_truthy (TsNum NaN) = False"
| "ts_truthy (TsNum n) = True"
| "ts_truthy (TsStr s) = (s \<noteq> [])"

text \<open>
  What \<^verbatim>\<open>buildBatches\<close> and the \<^verbatim>\<open>/predict\<close> handler take from their surroundings. A raw
  document has the type \<open>'doc\<close>. Its time is read from four properties: \<^verbatim>\<open>doc[tf]\<close> with
  the configured time field, \<^verbatim>\<open>doc.time\<close>, \<^verbatim>\<open>doc.iso\<close> (strings, nothing standing for a
  missing property) and \<^verbatim>\<open>doc.ts\<close>. \<^verbatim>\<open>pickSensor\<close> with the configured sensor field and
  \<^verbatim>\<open>extractTempHum\<close>, whose two results are \<^verbatim>\<open>null\<close> or finite, never throw and are
  readers. The rest is the host's \<^verbatim>\<open>Date\<close>, the configuration and the names of the
  model's outputs.
\<close>

record 'doc env =
  time_field :: "'doc \<Rightarrow> string option"
  time_prop :: "'doc \<Rightarrow> string option"
  iso_prop :: "'doc \<Rightarrow> string option"
  ts_prop :: "'doc \<Rightarrow> ts_value option"
  pickSensor :: "'doc \<Rightarrow> string"
  extractTempHum :: "'doc \<Rightarrow> real option \<times> real option"
  Date_parse :: "string \<Rightarrow> int option"
  toISOString :: "int \<Rightarrow> string"
  FORWARD_WINDOW_H :: number
  feature_names :: "string list"
  scaler_cfg :: "scaler option"
  outputNames :: "string list"

text \<open>\<^verbatim>\<open>new Date(doc.ts)\<close>: a number is a time value, a string is parsed.\<close>

fun date_of_ts :: "'doc env \<Rightarrow> ts_value \<Rightarrow> int option" where
  "date_of_ts env (TsNum n) = new_Date n"
| "date_of_ts env (TsStr s) = Date_parse env s"

text \<open>
\<^verbatim>\<open>
function pickTime(doc, tf) {
  return doc?.[tf] || doc?.time || doc?.iso || (doc?.ts ? new Date(doc.ts).toISOString() : null);
}
\<close>
  The result is the time string, or nothing for a falsy result. When the first three
  properties are falsy and \<^verbatim>\<open>doc.ts\<close> is truthy but not a valid date, \<^verbatim>\<open>toISOString\<close>
  throws.
\<close>

definition pickTime :: "'doc env \<Rightarrow> 'doc \<Rightarrow> exn + string option" where
  "pickTime env doc =
     (case js_or (time_field env doc) (js_or (time_prop env doc) (iso_prop env doc)) of
        Some (c # cs) \<Rightarrow> Inr (Some (c # cs))
      | _ \<Rightarrow>
          (case ts_prop env doc of
             None \<Rightarrow> Inr None
           | Some v \<Rightarrow>
               if \<not> ts_truthy v then Inr None
               else case date_of_ts env v of
                      None \<Rightarrow> Inl (RangeError ''Invalid time value'')
                    | Some ms \<Rightarrow> Inr (Some (toISOString env ms))))"

text \<open>
\<^verbatim>\<open>
  for (const doc of rawItems) {
    const tIso = pickTime(doc, CFG.TIME_FIELD);
    const sid  = pickSensor(doc, CFG.SENSOR_FIELD);
    if (!tIso || !sid) continue;
    const { t, h } = extractTempHum(doc);
    if (t == null && h == null) continue;
    const ms = new Date(tIso).getTime();
    if (!isFinite(ms)) continue;
    (by.get(sid) || by.set(sid, []).get(sid)).push({ t: ms, iso: tIso, tC: t, hPct: h });
  }
  for (const arr of by.values()) arr.sort((a,b)=>a.t - b.t);
\<close>
  The map \<^verbatim>\<open>by\<close> is the list of its entries in insertion order. One turn of the loop
  gives the sample of the document, nothing when the document is skipped, or the
  exception of \<^verbatim>\<open>pickTime\<close>, which ends \<^verbatim>\<open>buildBatches\<close>.
\<close>

definition sampleOf :: "'doc env \<Rightarrow> 'doc \<Rightarrow> exn + (string \<times> row) option" where
  "sampleOf env doc =
     (case pickTime env doc of
        Inl e \<Rightarrow> Inl e
      | Inr None \<Rightarrow> Inr None
      | Inr (Some tIso) \<Rightarrow>
          (let sid = pickSensor env doc
           in if tIso = [] \<or> sid = [] then Inr None
              else case extractTempHum env doc of
                (t, h) \<Rightarrow>
                  if t = None \<and> h = None then Inr None
                  else case Date_parse env tIso of
                         None \<Rightarrow> Inr None
                       | Some ms \<Rightarrow>
                           Inr (Some (sid, \<lparr>tms = ms, iso = tIso, tC = t, hPct = h\<rparr>))))"

fun push_by :: "(string \<times> row list) list \<Rightarrow> string \<Rightarrow> row \<Rightarrow> (string \<times> row list) list" where
  "push_by [] sid r = [(sid, [r])]"
| "push_by ((k, arr) # rest) sid r =
     (if k = sid then (k, arr @ [r]) # rest else (k, arr) # push_by rest sid r)"

fun collect ::
  "'doc env \<Rightarrow> 'doc list \<Rightarrow> (string \<times> row list) list \<Rightarrow> exn + (string \<times> row list) list" where
  "collect env [] m = Inr m"
| "collect env (doc # rest) m =
     (case sampleOf env doc of
        Inl e \<Rightarrow> Inl e
      | Inr None \<Rightarrow> collect env rest m
      | Inr (Some (sid, r)) \<Rightarrow> collect env rest (push_by m sid r))"

definition groupBySensor :: "'doc env \<Rightarrow> 'doc list \<Rightarrow> exn + (string \<times> row list) list" where
  "groupBySensor env rawItems =
     (case collect env rawItems [] of
        Inl e \<Rightarrow> Inl e
      | Inr m \<Rightarrow> Inr (map (\<lambda>(sid, arr). (sid, sort_key tms arr)) m))"

record meta =
  sensor :: string
  timeIso :: string

text \<open>
\<^verbatim>\<open>
    const lastIso = arr[arr.length - 1].iso;

    if (!asForward) {
      const vec = buildFeatureVectorFromWindow(arr, lastIso);
      vecs.push(vec);
      metas.push({ sensor, timeIso: lastIso });
      continue;
    }

    const cutoff = arr[arr.length - 1].t - CFG.FORWARD_WINDOW_H*3600*1000;
    const w = arr.filter(r => r.t >= cutoff);
    const fwdIso = new Date(arr[arr.length - 1].t + horizonH*3600*1000).toISOString();

    const src = w.length ? w : arr;
    const vec = buildFeatureVectorFromWindow(src, fwdIso);

    vecs.push(vec);
    metas.push({ sensor, timeIso: fwdIso });
\<close>
  One sensor's vector, metadata record and warnings.
\<close>

definition sensorVector ::
  "'doc env \<Rightarrow> bool \<Rightarrow> number \<Rightarrow> string \<Rightarrow> row list \<Rightarrow> exn + real list \<times> meta \<times> warning list" where
  "sensorVector env asForward horizonH sid arr =
     (let lastIso = iso (last arr)
      in if \<not> asForward then
           (case buildFeatureVectorFromWindow (Date_parse env) (feature_names env)
                   (scaler_cfg env) arr lastIso of
              (vec, warns) \<Rightarrow> Inr (vec, \<lparr>sensor = sid, timeIso = lastIso\<rparr>, warns))
         else
           (let cutoff = js_sub (real_of_int (tms (last arr))) (hours_ms (FORWARD_WINDOW_H env));
                w = filter (\<lambda>r. js_ge (Fin (real_of_int (tms r))) cutoff) arr
            in case new_Date (js_add (real_of_int (tms (last arr))) (hours_ms horizonH)) of
                 None \<Rightarrow> Inl (RangeError ''Invalid time value'')
               | Some fwd \<Rightarrow>
                   (let fwdIso = toISOString env fwd;
                        src = (if w \<noteq> [] then w else arr)
                    in case buildFeatureVectorFromWindow (Date_parse env) (feature_names env)
                              (scaler_cfg env) src fwdIso of
                         (vec, warns) \<Rightarrow> Inr (vec, \<lparr>sensor = sid, timeIso = fwdIso\<rparr>, warns))))"

text \<open>
  The loop \<^verbatim>\<open>for (const [sensor, arr] of by.entries())\<close> with its accumulators
  \<^verbatim>\<open>vecs\<close> and \<^verbatim>\<open>metas\<close> and the warnings written so far; an exception ends it.
\<close>

fun sensorsLoop ::
  "'doc env \<Rightarrow> bool \<Rightarrow> number \<Rightarrow> (string \<times> row list) list
     \<Rightarrow> real list list \<times> meta list \<times> warning list
     \<Rightarrow> exn + real list list \<times> meta list \<times> warning list" where
  "sensorsLoop env asForward horizonH [] acc = Inr acc"
| "sensorsLoop env asForward horizonH ((sid, arr) # rest) (vecs, metas, warns) =
     (if arr = [] then sensorsLoop env asForward horizonH rest (vecs, metas, warns)
      else case sensorVector env asForward horizonH sid arr of
             Inl e \<Rightarrow> Inl e
           | Inr (vec, m, ws) \<Rightarrow>
               sensorsLoop env asForward horizonH rest (vecs @ [vec], metas @ [m], warns @ ws))"

text \<open>
\<^verbatim>\<open>
  if (!vecs.length) {
    return { tensor: new ort.Tensor('float32', new Float32Array(0), [0, 36]), metas };
  }
  const data = Float32Array.from(vecs.flat());
  return { tensor: new ort.Tensor('float32', data, [vecs.length, 36]), metas };
\<close>
\<close>

record batches =
  tensor :: "real tensor"
  metas :: "meta list"
  console :: "warning list"

definition buildBatches :: "'doc env \<Rightarrow> 'doc list \<Rightarrow> bool \<Rightarrow> number \<Rightarrow> exn + batches" where
  "buildBatches env rawItems asForward horizonH =
     (case groupBySensor env rawItems of
        Inl e \<Rightarrow> Inl e
      | Inr groups \<Rightarrow>
          (case sensorsLoop env asForward horizonH groups ([], [], []) of
             Inl e \<Rightarrow> Inl e
           | Inr (vecs, ms, warns) \<Rightarrow>
               if vecs = [] then
                 Inr \<lparr>tensor = \<lparr>data = [], dims = [0, 36]\<rparr>, metas = ms, console = warns\<rparr>
               else
                 Inr \<lparr>tensor = \<lparr>data = concat vecs, dims = [length vecs, 36]\<rparr>,
                      metas = ms, console = warns\<rparr>))"

subsection \<open>The scoring request\<close>

text \<open>A point of the response, as the decision service reads it back: a field that is
  missing is nothing.\<close>

record point =
  p_sensorName :: "string option"
  p_time :: "string option"
  p_score :: jsval

record predict_body =
  forward :: bool
  horizonHours :: number
  featureCount :: "nat option"
  count :: nat
  points :: "point list"

datatype body = Scores predict_body | Failure string

record response =
  status :: nat
  body :: body

text \<open>\<^verbatim>\<open>res.status(500).json({ error: e?.message || 'Server error' })\<close>\<close>

definition server_error :: "exn \<Rightarrow> response" where
  "server_error e =
     \<lparr>status = 500, body = Failure (if message e = [] then ''Server error'' else message e)\<rparr>"

text \<open>\<^verbatim>\<open>probs[i]\<close>\<close>

definition prob_at :: "jsval list \<Rightarrow> nat \<Rightarrow> jsval" where
  "prob_at probs i = (if i < length probs then probs ! i else Undefined)"

text \<open>
\<^verbatim>\<open>
    const items = await fetchTimeSeries({ from, to });
    const { tensor, metas } = buildBatches(items, { asForward: forward, horizonH });

    if (tensor.dims[0] === 0) {
      return res.status(200).json({ forward, horizonHours: horizonH, count: 0, points: [] });
    }

    const inputName = session.inputNames[0]; // e.g., "float_input"
    const feeds = { [inputName]: tensor };
    const out = await session.run(feeds);
    const probs = extractProbs(out);

    const points = metas.map((m, i) => {
      const s = Number(probs[i]);
      return {
        sensorName: m.sensor,
        time: m.timeIso,
        score: Number.isFinite(s) ? s : null
      };
    });

    res.status(200).json({
      forward,
      horizonHours: horizonH,
      featureCount: 36,
      count: points.length,
      points
    });
  } catch (e) {
    console.error(e);
    res.status(500).json({ error: e?.message || 'Server error' });
  }
\<close>
  The handler, given the outcome of \<^verbatim>\<open>fetchTimeSeries\<close> and the model as a function
  \<open>run\<close> that may throw.
\<close>

definition predict ::
  "'doc env \<Rightarrow> bool \<Rightarrow> number \<Rightarrow> exn + 'doc list \<Rightarrow> (real tensor \<Rightarrow> exn + run_output)
     \<Rightarrow> response" where
  "predict env fwd horizonH fetched run =
     (case fetched of
        Inl e \<Rightarrow> server_error e
      | Inr rawItems \<Rightarrow>
          (case buildBatches env rawItems fwd horizonH of
             Inl e \<Rightarrow> server_error e
           | Inr b \<Rightarrow>
               if dims (tensor b) ! 0 = 0 then
                 \<lparr>status = 200,
                  body = Scores \<lparr>forward = fwd, horizonHours = horizonH, featureCount = None,
                                 count = 0, points = []\<rparr>\<rparr>
               else
                 (case run (tensor b) of
                    Inl e \<Rightarrow> server_error e
                  | Inr out \<Rightarrow>
                      (case extractProbs (outputNames env) out of
                         Inl e \<Rightarrow> server_error e
                       | Inr probs \<Rightarrow>
                           (let pts = map (\<lambda>(m, i).
                                  \<lparr>p_sensorName = Some (sensor m), p_time = Some (timeIso m),
                                   p_score = finite_or Null (\<lambda>s. Num (Fin s))
                                               (ToNumber (prob_at probs i))\<rparr>)
                                  (zip (metas b) [0..<length (metas b)])
                            in \<lparr>status = 200,
                                body = Scores \<lparr>forward = fwd, horizonHours = horizonH,
                                               featureCount = Some 36, count = length pts,
                                               points = pts\<rparr>\<rparr>)))))"

subsection \<open>The decision service\<close>

text \<open>The three decisions; the source writes them as the strings \<^verbatim>\<open>'UNKNOWN'\<close>,
  \<^verbatim>\<open>'TAKE ACTION'\<close> and \<^verbatim>\<open>'NO ACTION'\<close>.\<close>

datatype decision = UNKNOWN | TAKE_ACTION | NO_ACTION

record item =
  sensorName :: string
  time :: string
  score :: "real option"
  decision :: decision
  reason :: string

text \<open>
\<^verbatim>\<open>
function safeNumber(x) {
  const n = Number(x);
  return Number.isFinite(n) ? n : null;
}
\<close>
\<close>

definition safeNumber :: "jsval \<Rightarrow> real option" where
  "safeNumber x = finite_or None Some (ToNumber x)"

text \<open>
\<^verbatim>\<open>
function pct(x, digits = 1) {
  if (x == null || !Number.isFinite(Number(x))) return '';
  return (Number(x) * 100).toFixed(digits) + '%';
}
\<close>
  \<open>toFixed1\<close> is the host's \<^verbatim>\<open>toFixed(1)\<close>.
\<close>

definition pct :: "(real \<Rightarrow> string) \<Rightarrow> jsval \<Rightarrow> string" where
  "pct toFixed1 x =
     (if x = Null \<or> x = Undefined then []
      else finite_or [] (\<lambda>n. toFixed1 (n * 100) @ ''%'') (ToNumber x))"

text \<open>
  The parsed response of the scorer as the poll reads it: \<^verbatim>\<open>json.points\<close> when it is
  an array, the truthiness of \<^verbatim>\<open>json.forward\<close>, and \<^verbatim>\<open>json.horizonHours\<close> as a
  template literal prints it.
\<close>

record scorer_json =
  j_points :: "point list option"
  j_forward :: bool
  j_horizonHours :: string

text \<open>The sign \<^verbatim>\<open>>=\<close> of the reason text, one character in the source, in UTF-8.\<close>

definition ge_sign :: string where
  "ge_sign = [CHR 0xE2, CHR 0x89, CHR 0xA5]"

text \<open>
\<^verbatim>\<open>
  const items = rows.map(p => {
    const score = safeNumber(p.score);
    const frost = score != null && score >= CFG.FROST_THRESHOLD;

    let decision, reason;
    if (score == null) {
      decision = 'UNKNOWN';
      reason   = 'No probability available from predictor';
    } else if (frost) {
      decision = 'TAKE ACTION';
      reason   = `Frost risk ${pct(score)} >= ${pct(CFG.FROST_THRESHOLD)}${json.forward ? ` (forward ${json.horizonHours}h)` : ''}`;
    } else {
      decision = 'NO ACTION';
      reason   = `Frost risk ${pct(score)} < ${pct(CFG.FROST_THRESHOLD)}`;
    }

    return {
      sensorName: p.sensorName || 'unknown',
      time: p.time || '',
      score,
      decision,
      reason,
    };
  });
\<close>
\<close>

definition toItem :: "(real \<Rightarrow> string) \<Rightarrow> number \<Rightarrow> scorer_json \<Rightarrow> point \<Rightarrow> item" where
  "toItem toFixed1 thr json p =
     (let sc = safeNumber (p_score p);
          frost = (case sc of None \<Rightarrow> False | Some v \<Rightarrow> js_ge (Fin v) thr);
          dr = (case sc of
                  None \<Rightarrow> (UNKNOWN, ''No probability available from predictor'')
                | Some v \<Rightarrow>
                    if frost then
                      (TAKE_ACTION,
                       ''Frost risk '' @ pct toFixed1 (Num (Fin v)) @ '' '' @ ge_sign @ '' ''
                         @ pct toFixed1 (Num thr)
                         @ (if j_forward json then '' (forward '' @ j_horizonHours json @ ''h)''
                            else []))
                    else
                      (NO_ACTION,
                       ''Frost risk '' @ pct toFixed1 (Num (Fin v)) @ '' < ''
                         @ pct toFixed1 (Num thr)))
      in \<lparr>sensorName = (case p_sensorName p of
                          None \<Rightarrow> ''unknown''
                        | Some n \<Rightarrow> if n = [] then ''unknown'' else n),
          time = (case p_time p of None \<Rightarrow> [] | Some tm \<Rightarrow> tm),
          score = sc,
          decision = fst dr,
          reason = snd dr\<rparr>)"

text \<open>
\<^verbatim>\<open>
  // Keep latest by sensor (by time)
  const latestBySensor = new Map();
  for (const it of items) {
    const prev = latestBySensor.get(it.sensorName);
    const tms  = it.time ? Date.parse(it.time) : 0;
    if (!prev || tms > Date.parse(prev.time || 0)) latestBySensor.set(it.sensorName, it);
  }
\<close>
  The map is the list of its entries in insertion order; setting a key that is present
  keeps its place. \<^verbatim>\<open>Date.parse\<close> is the parameter \<open>dparse\<close>, nothing standing for
  \<^verbatim>\<open>NaN\<close>; \<^verbatim>\<open>Date.parse(0)\<close> parses the string \<^verbatim>\<open>"0"\<close>. A comparison with
  \<^verbatim>\<open>NaN\<close> is false.
\<close>

fun map_set :: "(string \<times> item) list \<Rightarrow> string \<Rightarrow> item \<Rightarrow> (string \<times> item) list" where
  "map_set [] k v = [(k, v)]"
| "map_set ((k', v') # m) k v = (if k' = k then (k, v) # m else (k', v') # map_set m k v)"

definition later_than :: "int option \<Rightarrow> int option \<Rightarrow> bool" where
  "later_than a b = (case (a, b) of (Some x, Some y) \<Rightarrow> y < x | _ \<Rightarrow> False)"

definition keepLatest ::
  "(string \<Rightarrow> int option) \<Rightarrow> (string \<times> item) list \<Rightarrow> item \<Rightarrow> (string \<times> item) list" where
  "keepLatest dparse m it =
     (let prev = map_of m (sensorName it);
          tm = (if time it \<noteq> [] then dparse (time it) else Some 0)
      in case prev of
           None \<Rightarrow> map_set m (sensorName it) it
         | Some pv \<Rightarrow>
             if later_than tm (dparse (if time pv \<noteq> [] then time pv else ''0''))
             then map_set m (sensorName it) it
             else m)"

definition latestBySensor :: "(string \<Rightarrow> int option) \<Rightarrow> item list \<Rightarrow> (string \<times> item) list" where
  "latestBySensor dparse its = foldl (keepLatest dparse) [] its"

text \<open>
\<^verbatim>\<open>
  STATE.items = Array.from(latestBySensor.values())
    .sort((a,b)=> String(a.sensorName).localeCompare(String(b.sensorName)));
\<close>
  The sort is stable; \<open>cmp\<close> is the host's \<^verbatim>\<open>localeCompare\<close>.
\<close>

fun insort_by :: "(string \<Rightarrow> string \<Rightarrow> int) \<Rightarrow> item \<Rightarrow> item list \<Rightarrow> item list" where
  "insort_by cmp x [] = [x]"
| "insort_by cmp x (y # ys) =
     (if cmp (sensorName y) (sensorName x) \<le> 0 then y # insort_by cmp x ys else x # y # ys)"

definition sort_by :: "(string \<Rightarrow> string \<Rightarrow> int) \<Rightarrow> item list \<Rightarrow> item list" where
  "sort_by cmp xs = foldl (\<lambda>acc x. insort_by cmp x acc) [] xs"

text \<open>The shared state \<^verbatim>\<open>STATE\<close>.\<close>

record state =
  lastRunAt :: "string option"
  st_forward :: bool
  st_horizonHours :: number
  items :: "item list"
  error :: "string option"

text \<open>
\<^verbatim>\<open>
  let json;
  try {
    const r = await fetch(url.toString(), { headers, cache: 'no-store' });
    const text = await r.text();
    if (!r.ok) throw new Error(`Predictor ${r.status}: ${text}`);
    json = JSON.parse(text);
  } catch (e) {
    STATE.lastRunAt = toIso(Date.now());
    STATE.error = e?.message || String(e);
    STATE.items = [];
    broadcast();
    return;
  }
\<close>
  What the \<^verbatim>\<open>try\<close> block can do: the fetch or the reading of the text is rejected with
  an error; the response is not ok, with its status (as printed) and text; the text does
  not parse; or the text parses, to \<^verbatim>\<open>null\<close> (nothing) or to a value with fields.
\<close>

datatype scorer_call =
  Rejected exn
| NotOk string string
| Unparsable exn
| Parsed "scorer_json option"

text \<open>The \<^verbatim>\<open>try\<close> block: the error that reaches the \<^verbatim>\<open>catch\<close> block, or the
  value of \<^verbatim>\<open>json\<close>.\<close>

fun try_block :: "scorer_call \<Rightarrow> exn + scorer_json option" where
  "try_block (Rejected e) = Inl e"
| "try_block (NotOk st tx) = Inl (Error (''Predictor '' @ st @ '': '' @ tx))"
| "try_block (Unparsable e) = Inl e"
| "try_block (Parsed j) = Inr j"

text \<open>\<^verbatim>\<open>e?.message || String(e)\<close>\<close>

definition thrown_message :: "exn \<Rightarrow> string" where
  "thrown_message e = (if message e \<noteq> [] then message e else exn_name e)"

text \<open>
\<^verbatim>\<open>
function broadcast() {
  const payload = `event: update\ndata: ${JSON.stringify(ssePayload())}\n\n`;
  for (const c of clients) {
    try { c.res.write(payload); } catch { /* ignore */ }
  }
}
\<close>
  The result lists the clients whose write succeeded, with the snapshot they received.
\<close>

definition broadcast :: "('c \<Rightarrow> bool) \<Rightarrow> 'c list \<Rightarrow> state \<Rightarrow> ('c \<times> state) list" where
  "broadcast write_ok clients st = map (\<lambda>c. (c, st)) (filter write_ok clients)"

text \<open>What \<^verbatim>\<open>pollPredictor\<close> takes from the host and the configuration.\<close>

record 'c sta_host =
  parse_date :: "string \<Rightarrow> int option"
  localeCompare :: "string \<Rightarrow> string \<Rightarrow> int"
  toFixed_1 :: "real \<Rightarrow> string"
  FROST_THRESHOLD :: number
  write_ok :: "'c \<Rightarrow> bool"

text \<open>
  \<^verbatim>\<open>pollPredictor\<close>, from the outcome of the call to the scorer: the new state and the
  snapshots delivered, or the exception that escapes. \<open>nowIso\<close> is
  \<^verbatim>\<open>toIso(Date.now())\<close> at publication. After the \<^verbatim>\<open>try\<close> block:
\<^verbatim>\<open>
  const rows = Array.isArray(json.points) ? json.points : [];
  const items = rows.map(p => { ... });
  ...
  STATE.lastRunAt = toIso(Date.now());
  STATE.error = null;
  STATE.items = Array.from(latestBySensor.values())
    .sort((a,b)=> String(a.sensorName).localeCompare(String(b.sensorName)));

  broadcast();
\<close>
\<close>

definition pollPredictor ::
  "'c sta_host \<Rightarrow> string \<Rightarrow> 'c list \<Rightarrow> scorer_call \<Rightarrow> state \<Rightarrow> exn + state \<times> ('c \<times> state) list" where
  "pollPredictor host nowIso clients call STATE =
     (case try_block call of
        Inl e \<Rightarrow>
          (let st = STATE\<lparr>lastRunAt := Some nowIso, error := Some (thrown_message e), items := []\<rparr>
           in Inr (st, broadcast (write_ok host) clients st))
      | Inr None \<Rightarrow> Inl (TypeError ''Cannot read properties of null'')
      | Inr (Some json) \<Rightarrow>
          (let rows = (case j_points json of Some ps \<Rightarrow> ps | None \<Rightarrow> []);
               its = map (toItem (toFixed_1 host) (FROST_THRESHOLD host) json) rows;
               latest = latestBySensor (parse_date host) its;
               st = STATE\<lparr>lastRunAt := Some nowIso, error := None,
                          items := sort_by (localeCompare host) (map snd latest)\<rparr>
           in Inr (st, broadcast (write_ok host) clients st)))"

subsection \<open>Reference formula and sample host functions\<close>

text \<open>
  The dew point as the specification words it, with the humidity itself (in percent)
  floored at \<open>1e-6\<close> before it is turned into a fraction. It is compared with
  \<open>dewpointC\<close> below.
\<close>

definition spec_dewpoint :: "real \<Rightarrow> real \<Rightarrow> real" where
  "spec_dewpoint t rh =
     (let a = 17.62; b = 243.12;
          gamma = a * t / (b + t) + ln (max (1 / 10 ^ 6) rh / 100)
      in b * gamma / (a - gamma))"

text \<open>
  The host's date parser on the strings of the examples: three ISO instants with their
  time values, every other string of the examples being an invalid date.
\<close>

definition sample_parse :: "string \<Rightarrow> int option" where
  "sample_parse s =
     (if s = ''2024-01-01T00:00:00.000Z'' then Some 1704067200000
      else if s = ''2024-01-01T07:30:00.000Z'' then Some 1704094200000
      else if s = ''2024-01-02T00:00:00.000Z'' then Some 1704153600000
      else None)"

text \<open>
  The selection of the output as the specification words it: a name contains
  \<^verbatim>\<open>prob\<close> when it has four consecutive characters that are \<^verbatim>\<open>p\<close>, \<^verbatim>\<open>r\<close>, \<^verbatim>\<open>o\<close>,
  \<^verbatim>\<open>b\<close> in either case; an output is 2-dimensional when the run output holds a tensor
  under its name whose shape has two entries. They are compared with \<open>test_prob\<close>
  and \<open>has2dims\<close> below.
\<close>

definition spec_contains_prob :: "string \<Rightarrow> bool" where
  "spec_contains_prob n =
     (\<exists>pre c1 c2 c3 c4 suf. n = pre @ [c1, c2, c3, c4] @ suf \<and>
        c1 \<in> {CHR ''p'', CHR ''P''} \<and> c2 \<in> {CHR ''r'', CHR ''R''} \<and>
        c3 \<in> {CHR ''o'', CHR ''O''} \<and> c4 \<in> {CHR ''b'', CHR ''B''})"

definition spec_two_dimensional :: "run_output \<Rightarrow> string \<Rightarrow> bool" where
  "spec_two_dimensional runOutput n = (\<exists>t. runOutput n = Some t \<and> length (dims t) = 2)"

text \<open>A run output that holds two tensors under two names.\<close>

definition run_of :: "string \<Rightarrow> number tensor \<Rightarrow> string \<Rightarrow> number tensor \<Rightarrow> run_output" where
  "run_of n1 t1 n2 t2 = (\<lambda>n. if n = n1 then Some t1 else if n = n2 then Some t2 else None)"

text \<open>
  A run output of a model with the two outputs \<^verbatim>\<open>label\<close> and \<^verbatim>\<open>probabilities\<close>, the
  second with the given data and shape.
\<close>

definition sample_run :: "number list \<Rightarrow> nat list \<Rightarrow> run_output" where
  "sample_run dat ds =
     map_of [(''label'', \<lparr>data = [Fin 0, Fin 1, Fin 1], dims = [3]\<rparr>),
             (''probabilities'', \<lparr>data = dat, dims = ds\<rparr>)]"

text \<open>
  Surroundings for the examples: a raw document is the tuple of what the readers find in
  it (its time, under the configured field \<^verbatim>\<open>time\<close>; \<^verbatim>\<open>ts\<close>; the sensor; temperature
  and humidity), and the model answers 0.5 for the positive class of every row.
\<close>

definition sample_env ::
  "(string option \<times> ts_value option \<times> string \<times> real option \<times> real option) env" where
  "sample_env =
     \<lparr>time_field = (\<lambda>(tm, ts, sid, t, h). tm),
      time_prop = (\<lambda>(tm, ts, sid, t, h). tm),
      iso_prop = (\<lambda>(tm, ts, sid, t, h). None),
      ts_prop = (\<lambda>(tm, ts, sid, t, h). ts),
      pickSensor = (\<lambda>(tm, ts, sid, t, h). sid),
      extractTempHum = (\<lambda>(tm, ts, sid, t, h). (t, h)),
      Date_parse = sample_parse,
      toISOString = (\<lambda>ms. if ms = 1704153600000 then ''2024-01-02T00:00:00.000Z'' else []),
      FORWARD_WINDOW_H = Fin 8,
      feature_names = DEFAULT_FEATURES_36,
      scaler_cfg = None,
      outputNames = [''label'', ''probabilities'']\<rparr>"

definition sample_model :: "real tensor \<Rightarrow> exn + run_output" where
  "sample_model t =
     Inr (sample_run (concat (replicate (dims t ! 0) [Fin (1 / 2), Fin (1 / 2)])) [dims t ! 0, 2])"

text \<open>
  A host for the examples of the decision service: the order of character codes stands
  for \<^verbatim>\<open>localeCompare\<close> (they agree on the sensor names used), \<^verbatim>\<open>toFixed(1)\<close> is
  given on the percentages used, the threshold is 0.8, and the write to client 2 fails.
\<close>

fun code_order :: "string \<Rightarrow> string \<Rightarrow> int" where
  "code_order [] [] = 0"
| "code_order [] (y # ys) = - 1"
| "code_order (x # xs) [] = 1"
| "code_order (x # xs) (y # ys) =
     (if (of_char x :: nat) < of_char y then - 1
      else if (of_char y :: nat) < of_char x then 1
      else code_order xs ys)"

definition sample_host :: "nat sta_host" where
  "sample_host =
     \<lparr>parse_date = sample_parse,
      localeCompare = code_order,
      toFixed_1 = (\<lambda>x. if x = 85 then ''85.0'' else if x = 80 then ''80.0''
                        else if x = 79 then ''79.0'' else if x = 0 then ''0.0'' else ''?''),
      FROST_THRESHOLD = Fin 0.8,
      write_ok = (\<lambda>c. c \<noteq> 2)\<rparr>"

text \<open>A decision as the poll builds it, for the examples.\<close>

definition sample_item :: "string \<Rightarrow> string \<Rightarrow> real \<Rightarrow> item" where
  "sample_item sid tm v =
     \<lparr>sensorName = sid, time = tm, score = Some v, decision = NO_ACTION, reason = []\<rparr>"

text \<open>A state with one decision published by an earlier cycle.\<close>

definition sample_state :: state where
  "sample_state =
     \<lparr>lastRunAt = None, st_forward = True, st_horizonHours = Fin 8,
      items = [sample_item ''s1'' ''2024-01-01T00:00:00.000Z'' 0.9], error = None\<rparr>"

text \<open>
  A configuration with 36 feature names and a scaler of the same length (mean 0 and
  scale 0.5 for every feature), and one sample of a sensor.
\<close>

definition sample_names_36 :: "string list" where
  "sample_names_36 = DEFAULT_FEATURES_36 @ [''extra_0'', ''extra_1'', ''extra_2'', ''extra_3'']"

definition sample_scaler :: scaler where
  "sample_scaler = \<lparr>mean = replicate 36 0, scale = replicate 36 (1 / 2)\<rparr>"

definition sample_row :: row where
  "sample_row = \<lparr>tms = 1704094200000, iso = ''2024-01-01T07:30:00.000Z'',
                  tC = Some 1, hPct = Some 50\<rparr>"

section \<open>Properties\<close>

subsection \<open>The scaler\<close>

lemma applyScaler_length: "length (applyScaler SCALER vec) = length vec"
  by (simp add: applyScaler_def split: option.splits)

text \<open>
  C9. \<^verbatim>\<open>applyScaler\<close> returns its input unchanged when no scaler is configured and
  whenever the length of the mean array or of the scale array differs from the length of
  the vector; only when both lengths equal the vector's length is every component
  \<open>i\<close> replaced by \<open>(x - mean[i]) / (scale[i] or 1)\<close>.
\<close>

theorem applyScaler_spec:
  "applyScaler None vec = vec \<and>
   (length (mean s) \<noteq> length vec \<or> length (scale s) \<noteq> length vec
      \<longrightarrow> applyScaler (Some s) vec = vec) \<and>
   (length (mean s) = length vec \<and> length (scale s) = length vec
      \<longrightarrow> length (applyScaler (Some s) vec) = length vec \<and>
          (\<forall>i < length vec. applyScaler (Some s) vec ! i =
             (vec ! i - mean s ! i) / (if scale s ! i = 0 then 1 else scale s ! i)))"
  by (auto simp: applyScaler_def)

theorem applyScaler_spec_witness:
  "applyScaler (Some \<lparr>mean = [1, 2], scale = [2, 0]\<rparr>) [3, 5, 7] = [3, 5, 7] \<and>
   applyScaler (Some \<lparr>mean = [1, 2], scale = [2, 0]\<rparr>) [3, 5] ! 0 = 1 \<and>
   applyScaler (Some \<lparr>mean = [1, 2], scale = [2, 0]\<rparr>) [3, 5] ! 1 = 3"
  using applyScaler_spec [of "[3, 5, 7]" "\<lparr>mean = [1, 2], scale = [2, 0]\<rparr>"]
    applyScaler_spec [of "[3, 5]" "\<lparr>mean = [1, 2], scale = [2, 0]\<rparr>"]
  by (simp add: nth_Cons')

subsection \<open>The feature vector has 36 components\<close>

lemma pad36_eq: "pad36 vec = vec @ replicate (36 - length vec) 0"
proof (induction vec rule: pad36.induct)
  case (1 vec)
  show ?case
  proof (cases "length vec < 36")
    case True
    then have "36 - length vec = Suc (36 - length (vec @ [0]))" by simp
    with True 1 show ?thesis
      by (subst pad36.simps) (simp add: replicate_app_Cons_same)
  next
    case False
    then show ?thesis by (subst pad36.simps) simp
  qed
qed

lemma rawVec_length: "length (rawVec names fs) = length names"
  by (simp add: rawVec_def)

lemma length_DEFAULT_FEATURES_36: "length DEFAULT_FEATURES_36 = 32"
  by (simp add: DEFAULT_FEATURES_36_def)

text \<open>
  C5. For every window, reference time, scaler and list of feature names, the vector
  returned by \<^verbatim>\<open>buildFeatureVectorFromWindow\<close> has exactly 36 components: the scaled
  vector cut to 36 components and filled up with zeros, and a warning is written
  exactly when the list of feature names does not have 36 entries.
\<close>

theorem buildFeatureVector_length_36:
  "length (fst (buildFeatureVectorFromWindow dparse names SCALER rows refIso)) = 36 \<and>
   fst (buildFeatureVectorFromWindow dparse names SCALER rows refIso) =
     take 36 (applyScaler SCALER (rawVec names (feats dparse rows refIso)))
       @ replicate (36 - length names) 0 \<and>
   snd (buildFeatureVectorFromWindow dparse names SCALER rows refIso) =
     (if length names = 36 then [] else [BuiltButExpected36 (length names)])"
  by (simp add: buildFeatureVectorFromWindow_def Let_def pad36_eq applyScaler_length rawVec_length)

theorem buildFeatureVector_length_36_witness:
  "length (fst (buildFeatureVectorFromWindow sample_parse (take 30 DEFAULT_FEATURES_36) None [] [])) = 36 \<and>
   snd (buildFeatureVectorFromWindow sample_parse (take 30 DEFAULT_FEATURES_36) None [] [])
     = [BuiltButExpected36 30] \<and>
   length (fst (buildFeatureVectorFromWindow sample_parse
     (DEFAULT_FEATURES_36 @ replicate 4 ''extra'') None [] [])) = 36 \<and>
   snd (buildFeatureVectorFromWindow sample_parse
     (DEFAULT_FEATURES_36 @ replicate 4 ''extra'') None [] []) = [] \<and>
   length (fst (buildFeatureVectorFromWindow sample_parse
     (DEFAULT_FEATURES_36 @ replicate 8 ''extra'') None [] [])) = 36 \<and>
   snd (buildFeatureVectorFromWindow sample_parse
     (DEFAULT_FEATURES_36 @ replicate 8 ''extra'') None [] []) = [BuiltButExpected36 40]"
  using
    buildFeatureVector_length_36 [of sample_parse "take 30 DEFAULT_FEATURES_36" None "[]" "[]"]
    buildFeatureVector_length_36 [of sample_parse "DEFAULT_FEATURES_36 @ replicate 4 ''extra''" None "[]" "[]"]
    buildFeatureVector_length_36 [of sample_parse "DEFAULT_FEATURES_36 @ replicate 8 ''extra''" None "[]" "[]"]
  by (simp add: length_DEFAULT_FEATURES_36 applyScaler_length rawVec_length)

subsection \<open>Time windows\<close>

lemma scanBack_ge: "- 1 \<le> i \<Longrightarrow> - 1 \<le> scanBack rows cutoff i"
proof (induction rows cutoff i rule: scanBack.induct)
  case (1 rows cutoff i)
  then show ?case by (subst scanBack.simps) auto
qed

lemma scanBack_le: "scanBack rows cutoff i \<le> i"
proof (induction rows cutoff i rule: scanBack.induct)
  case (1 rows cutoff i)
  then show ?case by (subst scanBack.simps) auto
qed

lemma scanBack_kept:
  "scanBack rows cutoff i < j \<Longrightarrow> j \<le> i \<Longrightarrow> cutoff \<le> tms (rows ! nat j)"
proof (induction rows cutoff i rule: scanBack.induct)
  case (1 rows cutoff i)
  show ?case
  proof (cases "0 \<le> i \<and> cutoff \<le> tms (rows ! nat i)")
    case True
    then have eq: "scanBack rows cutoff i = scanBack rows cutoff (i - 1)"
      by (subst scanBack.simps) simp
    show ?thesis
    proof (cases "j = i")
      case True
      with \<open>0 \<le> i \<and> cutoff \<le> tms (rows ! nat i)\<close> show ?thesis by simp
    next
      case False
      with 1 True eq show ?thesis by auto
    qed
  next
    case False
    then have "scanBack rows cutoff i = i" by (subst scanBack.simps) auto
    with 1 show ?thesis by simp
  qed
qed

lemma scanBack_stop:
  "0 \<le> scanBack rows cutoff i \<Longrightarrow> tms (rows ! nat (scanBack rows cutoff i)) < cutoff"
proof (induction rows cutoff i rule: scanBack.induct)
  case (1 rows cutoff i)
  show ?case
  proof (cases "0 \<le> i \<and> cutoff \<le> tms (rows ! nat i)")
    case True
    then have eq: "scanBack rows cutoff i = scanBack rows cutoff (i - 1)"
      by (subst scanBack.simps) simp
    with 1 True show ?thesis by simp
  next
    case False
    then have "scanBack rows cutoff i = i" by (subst scanBack.simps) auto
    with 1 False show ?thesis by auto
  qed
qed

lemma filter_split_at:
  assumes "\<forall>x \<in> set (take k xs). \<not> P x" "\<forall>x \<in> set (drop k xs). P x"
  shows "filter P xs = drop k xs"
proof -
  have "filter P xs = filter P (take k xs @ drop k xs)" by simp
  also have "\<dots> = filter P (take k xs) @ filter P (drop k xs)" by (rule filter_append)
  also have "filter P (take k xs) = []" using assms(1) by (simp add: filter_empty_conv)
  also have "filter P (drop k xs) = drop k xs" using assms(2) by (simp add: filter_id_conv)
  finally show ?thesis by simp
qed

text \<open>
  C6. For a series sorted ascending by timestamp and every horizon \<open>h\<close>,
  \<^verbatim>\<open>sliceHours(h)\<close> is a suffix of the series and consists exactly of the samples whose
  timestamp is at least the timestamp of the last sample minus \<open>h * 3600000\<close>
  milliseconds.
\<close>

theorem sliceHours_suffix_filter:
  assumes "sorted (map tms rows)"
  shows "sliceHours rows h = filter (\<lambda>r. tms (last rows) - h * 3600000 \<le> tms r) rows \<and>
         suffix (sliceHours rows h) rows"
proof (cases "rows = []")
  case True
  then show ?thesis by (simp add: sliceHours_def)
next
  case False
  define cutoff where "cutoff = tms (last rows) - h * 3600 * 1000"
  define i where "i = scanBack rows cutoff (int (length rows) - 1)"
  define k where "k = nat (i + 1)"
  have sl: "sliceHours rows h = drop k rows"
    using False by (simp add: sliceHours_def Let_def cutoff_def i_def k_def)
  have ige: "- 1 \<le> i" unfolding i_def by (rule scanBack_ge) simp
  have ile: "i \<le> int (length rows) - 1" unfolding i_def by (rule scanBack_le)
  have kept: "\<forall>x \<in> set (drop k rows). cutoff \<le> tms x"
  proof
    fix x assume "x \<in> set (drop k rows)"
    then obtain m where m: "m < length rows - k" "x = rows ! (k + m)"
      by (auto simp: in_set_conv_nth)
    have "i < i + 1 + int m" "i + 1 + int m \<le> int (length rows) - 1"
      using m(1) ige by (auto simp: k_def)
    then have "cutoff \<le> tms (rows ! nat (i + 1 + int m))"
      unfolding i_def by (rule scanBack_kept)
    moreover have "nat (i + 1 + int m) = k + m"
      using ige by (simp add: k_def nat_add_distrib)
    ultimately show "cutoff \<le> tms x" using m(2) by simp
  qed
  have dropped: "\<forall>x \<in> set (take k rows). \<not> cutoff \<le> tms x"
  proof
    fix x assume "x \<in> set (take k rows)"
    then obtain m where m: "m < k" "m < length rows" "x = rows ! m"
      by (auto simp: in_set_conv_nth)
    from m(1) have i0: "0 \<le> i" by (simp add: k_def)
    then have stop: "tms (rows ! nat i) < cutoff"
      unfolding i_def by (rule scanBack_stop)
    have "m \<le> nat i" using m(1) i0 by (simp add: k_def)
    moreover have "nat i < length rows" using ile i0 by simp
    ultimately have "map tms rows ! m \<le> map tms rows ! nat i"
      using assms by (simp add: sorted_iff_nth_mono del: nth_map)
    then have "tms (rows ! m) \<le> tms (rows ! nat i)"
      using m(2) \<open>nat i < length rows\<close> by simp
    with stop m(3) show "\<not> cutoff \<le> tms x" by simp
  qed
  have "filter (\<lambda>r. cutoff \<le> tms r) rows = drop k rows"
    using dropped kept by (rule filter_split_at)
  moreover have "cutoff = tms (last rows) - h * 3600000" by (simp add: cutoff_def)
  ultimately show ?thesis
    by (simp add: sl suffix_drop)
qed

theorem sliceHours_suffix_filter_witness:
  "sorted (map tms [\<lparr>tms = 0, iso = ''a'', tC = Some 1, hPct = None\<rparr>,
                    \<lparr>tms = 3600000, iso = ''b'', tC = Some 2, hPct = None\<rparr>,
                    \<lparr>tms = 7200000, iso = ''c'', tC = Some 3, hPct = None\<rparr>]) \<and>
   sliceHours [\<lparr>tms = 0, iso = ''a'', tC = Some 1, hPct = None\<rparr>,
               \<lparr>tms = 3600000, iso = ''b'', tC = Some 2, hPct = None\<rparr>,
               \<lparr>tms = 7200000, iso = ''c'', tC = Some 3, hPct = None\<rparr>] 1 =
     [\<lparr>tms = 3600000, iso = ''b'', tC = Some 2, hPct = None\<rparr>,
      \<lparr>tms = 7200000, iso = ''c'', tC = Some 3, hPct = None\<rparr>]"
  using sliceHours_suffix_filter [of "[\<lparr>tms = 0, iso = ''a'', tC = Some 1, hPct = None\<rparr>,
               \<lparr>tms = 3600000, iso = ''b'', tC = Some 2, hPct = None\<rparr>,
               \<lparr>tms = 7200000, iso = ''c'', tC = Some 3, hPct = None\<rparr>]" 1]
  by simp



subsection \<open>Hour bins\<close>

lemma replicate4: "replicate 4 x = [x, x, x, x]"
  by (simp add: numeral_eq_Suc)

lemma feat_hr_bins:
  "rawVec [''hr_bin_0'', ''hr_bin_1'', ''hr_bin_2'', ''hr_bin_3''] (feats dparse rows refIso)
     = [hourBin4 dparse refIso ! 0, hourBin4 dparse refIso ! 1,
        hourBin4 dparse refIso ! 2, hourBin4 dparse refIso ! 3]"
  by (simp add: rawVec_def feat_def feats_def Let_def)

lemma upd4:
  "[a, b, c, d][0 := x] = [x, b, c, d]"
  "[a, b, c, d][1 := x] = [a, x, c, d]"
  "[a, b, c, d][2 := x] = [a, b, x, d]"
  "[a, b, c, d][3 := x] = [a, b, c, x]"
  by (simp_all add: numeral_eq_Suc)

lemma hourBin4_valid:
  assumes "dparse s = Some ms"
  shows "hourBin4 dparse s = (replicate 4 0)[nat ((ms div 3600000) mod 24 div 6) := 1]"
    and "nat ((ms div 3600000) mod 24 div 6) < 4"
proof -
  define h where "h = (ms div 3600000) mod 24"
  have "0 \<le> h" "h < 24" by (simp_all add: h_def)
  then have "h div 6 = 0 \<or> h div 6 = 1 \<or> h div 6 = 2 \<or> h div 6 = 3" by presburger
  moreover have "hourBin4 dparse s = map (\<lambda>i. if i = h div 6 then 1 else 0) [0, 1, 2, 3]"
    using assms by (simp add: hourBin4_def getUTCHours_def h_def)
  ultimately show "hourBin4 dparse s = (replicate 4 0)[nat ((ms div 3600000) mod 24 div 6) := 1]"
    unfolding h_def [symmetric] by (auto simp: replicate4 upd4)
  from \<open>h div 6 = 0 \<or> h div 6 = 1 \<or> h div 6 = 2 \<or> h div 6 = 3\<close>
  show "nat ((ms div 3600000) mod 24 div 6) < 4"
    unfolding h_def [symmetric] by auto
qed

lemma hourBin4_invalid: "dparse s = None \<Longrightarrow> hourBin4 dparse s = [0, 0, 0, 0]"
  by (simp add: hourBin4_def getUTCHours_def)

lemma rawVec_nth:
  "k < length names \<Longrightarrow>
     rawVec names fs ! k = finite_or 0 (\<lambda>num. num) (ToNumber (feat fs (names ! k)))"
  by (simp add: rawVec_def)

lemma applyScaler_nth:
  assumes "length (mean s) = length vec" "length (scale s) = length vec" "i < length vec"
  shows "applyScaler (Some s) vec ! i =
     (vec ! i - mean s ! i) / (if scale s ! i = 0 then 1 else scale s ! i)"
  using assms by (simp add: applyScaler_def)

lemma feat_hr_bin_each:
  "feat (feats dparse rows refIso) ''hr_bin_0'' = Num (Fin (hourBin4 dparse refIso ! 0))"
  "feat (feats dparse rows refIso) ''hr_bin_1'' = Num (Fin (hourBin4 dparse refIso ! 1))"
  "feat (feats dparse rows refIso) ''hr_bin_2'' = Num (Fin (hourBin4 dparse refIso ! 2))"
  "feat (feats dparse rows refIso) ''hr_bin_3'' = Num (Fin (hourBin4 dparse refIso ! 3))"
  by (simp_all add: feat_def feats_def Let_def)

lemma feat_hr_bin:
  assumes "j < 4"
  shows "feat (feats dparse rows refIso) ([''hr_bin_0'', ''hr_bin_1'', ''hr_bin_2'', ''hr_bin_3''] ! j)
       = Num (Fin (hourBin4 dparse refIso ! j))"
proof -
  from assms have "j = 0 \<or> j = 1 \<or> j = 2 \<or> j = 3" by arith
  then show ?thesis
    by (elim disjE) (simp_all only: feat_hr_bin_each nth_Cons_0 nth_Cons_numeral nth_Cons_Suc
        One_nat_def numeral_2_eq_2 numeral_3_eq_3)
qed

lemma assembled_unscaled_nth:
  assumes "k < length names" "k < 36"
  shows "fst (buildFeatureVectorFromWindow dparse names None rows refIso) ! k
     = rawVec names (feats dparse rows refIso) ! k"
  using assms
  by (simp add: buildFeatureVectorFromWindow_def Let_def applyScaler_def pad36_eq rawVec_length
      nth_append)

lemma assembled_hr_bin:
  assumes "k < length names" "k < 36" "j < 4"
    "names ! k = [''hr_bin_0'', ''hr_bin_1'', ''hr_bin_2'', ''hr_bin_3''] ! j"
  shows "fst (buildFeatureVectorFromWindow dparse names None rows refIso) ! k
     = hourBin4 dparse refIso ! j"
  using assms feat_hr_bin [of j dparse rows refIso]
  by (simp add: assembled_unscaled_nth rawVec_nth)

lemma sample_names_36_hr:
  "length sample_names_36 = 36"
  "sample_names_36 ! 28 = ''hr_bin_0''" "sample_names_36 ! 29 = ''hr_bin_1''"
  "sample_names_36 ! 30 = ''hr_bin_2''" "sample_names_36 ! 31 = ''hr_bin_3''"
  by (simp_all add: sample_names_36_def DEFAULT_FEATURES_36_def)

lemma sample_hour_bins: "hourBin4 sample_parse ''2024-01-01T07:30:00.000Z'' = [0, 1, 0, 0]"
  by (simp add: hourBin4_def getUTCHours_def sample_parse_def)

text \<open>
  C10, as stated, fails for the assembled vector when a scaler is applied: with 36
  feature names and a scaler of mean 0 and scale 0.5, the four \<^verbatim>\<open>hr_bin\<close> entries of
  the vector built for 07:30 UTC are 0, 2, 0, 0, and their sum is 2.
\<close>

theorem hr_bin_scaled_counterexample:
  "\<not> (fst (buildFeatureVectorFromWindow sample_parse sample_names_36
          (Some sample_scaler) [sample_row] ''2024-01-01T07:30:00.000Z'') ! 28
      + fst (buildFeatureVectorFromWindow sample_parse sample_names_36
          (Some sample_scaler) [sample_row] ''2024-01-01T07:30:00.000Z'') ! 29
      + fst (buildFeatureVectorFromWindow sample_parse sample_names_36
          (Some sample_scaler) [sample_row] ''2024-01-01T07:30:00.000Z'') ! 30
      + fst (buildFeatureVectorFromWindow sample_parse sample_names_36
          (Some sample_scaler) [sample_row] ''2024-01-01T07:30:00.000Z'') ! 31 \<le> 1)"
proof -
  let ?fs = "feats sample_parse [sample_row] ''2024-01-01T07:30:00.000Z''"
  let ?raw = "rawVec sample_names_36 ?fs"
  have len: "length ?raw = 36" by (simp add: rawVec_length sample_names_36_hr)
  have raw: "?raw ! 28 = 0" "?raw ! 29 = 1" "?raw ! 30 = 0" "?raw ! 31 = 0"
    by (simp_all add: rawVec_nth sample_names_36_hr feat_hr_bin_each sample_hour_bins)
  have sc: "applyScaler (Some sample_scaler) ?raw ! i = ?raw ! i / (1 / 2)" if "i < 36" for i
    using that len by (simp add: applyScaler_nth sample_scaler_def)
  have vec: "fst (buildFeatureVectorFromWindow sample_parse sample_names_36
                       (Some sample_scaler) [sample_row] ''2024-01-01T07:30:00.000Z'')
      = applyScaler (Some sample_scaler) ?raw"
    by (simp add: buildFeatureVectorFromWindow_def Let_def applyScaler_length len)
  show ?thesis
    unfolding vec by (simp add: sc raw)
qed

text \<open>
  C10, amended. For every reference time string the hour-bin encoder returns four values,
  each 0 or 1. When the string parses to a time value, exactly the entry at index
  \<open>floor(UTC hour / 6)\<close> is 1 and the other three are 0; when it does not parse,
  all four are 0. These are the values of the four features \<^verbatim>\<open>hr_bin_0\<close> to
  \<^verbatim>\<open>hr_bin_3\<close> before scaling, so their sum is at most 1; they are the entries of
  the assembled vector at the places of these names when no scaler is configured.
\<close>

theorem hourBin4_one_hot:
  "length (hourBin4 dparse s) = 4 \<and>
   set (hourBin4 dparse s) \<subseteq> {0, 1} \<and>
   (\<forall>ms. dparse s = Some ms \<longrightarrow>
      nat ((ms div 3600000) mod 24 div 6) < 4 \<and>
      hourBin4 dparse s = (replicate 4 0)[nat ((ms div 3600000) mod 24 div 6) := 1]) \<and>
   (dparse s = None \<longrightarrow> hourBin4 dparse s = [0, 0, 0, 0]) \<and>
   rawVec [''hr_bin_0'', ''hr_bin_1'', ''hr_bin_2'', ''hr_bin_3''] (feats dparse rows s)
     = hourBin4 dparse s \<and>
   sum_list (hourBin4 dparse s) \<le> 1 \<and>
   (\<forall>k j. k < length names \<and> k < 36 \<and> j < 4 \<and>
      names ! k = [''hr_bin_0'', ''hr_bin_1'', ''hr_bin_2'', ''hr_bin_3''] ! j \<longrightarrow>
      fst (buildFeatureVectorFromWindow dparse names None rows s) ! k = hourBin4 dparse s ! j)"
proof -
  have len: "length (hourBin4 dparse s) = 4"
    by (simp add: hourBin4_def Let_def)
  have vals: "set (hourBin4 dparse s) \<subseteq> {0, 1}"
    by (auto simp: hourBin4_def Let_def)
  have valid: "\<forall>ms. dparse s = Some ms \<longrightarrow>
      nat ((ms div 3600000) mod 24 div 6) < 4 \<and>
      hourBin4 dparse s = (replicate 4 0)[nat ((ms div 3600000) mod 24 div 6) := 1]"
    using hourBin4_valid [of dparse s] by blast
  have invalid: "dparse s = None \<longrightarrow> hourBin4 dparse s = [0, 0, 0, 0]"
    using hourBin4_invalid [of dparse s] by blast
  have "[hourBin4 dparse s ! 0, hourBin4 dparse s ! 1, hourBin4 dparse s ! 2,
         hourBin4 dparse s ! 3] = hourBin4 dparse s"
    by (simp add: hourBin4_def Let_def)
  then have fs: "rawVec [''hr_bin_0'', ''hr_bin_1'', ''hr_bin_2'', ''hr_bin_3'']
      (feats dparse rows s) = hourBin4 dparse s"
    by (simp only: feat_hr_bins)
  have total: "sum_list (hourBin4 dparse s) \<le> 1"
  proof (cases "dparse s")
    case None
    then show ?thesis by (simp add: hourBin4_invalid)
  next
    case (Some ms)
    define k where "k = nat ((ms div 3600000) mod 24 div 6)"
    have "k < 4" and hb: "hourBin4 dparse s = (replicate 4 0)[k := 1]"
      using hourBin4_valid [of dparse s ms] Some by (simp_all add: k_def)
    then have "k = 0 \<or> k = 1 \<or> k = 2 \<or> k = 3" by arith
    then show ?thesis
      unfolding hb by (auto simp: replicate4 upd4)
  qed
  have assembled: "\<forall>k j. k < length names \<and> k < 36 \<and> j < 4 \<and>
      names ! k = [''hr_bin_0'', ''hr_bin_1'', ''hr_bin_2'', ''hr_bin_3''] ! j \<longrightarrow>
      fst (buildFeatureVectorFromWindow dparse names None rows s) ! k = hourBin4 dparse s ! j"
    using assembled_hr_bin [of _ names _ dparse rows s] by blast
  from len vals valid invalid fs total assembled show ?thesis
    by (intro conjI)
qed

theorem hourBin4_one_hot_witness:
  "sample_parse ''2024-01-01T07:30:00.000Z'' = Some 1704094200000 \<and>
   hourBin4 sample_parse ''2024-01-01T07:30:00.000Z'' = [0, 1, 0, 0] \<and>
   sample_parse ''yesterday'' = None \<and>
   hourBin4 sample_parse ''yesterday'' = [0, 0, 0, 0] \<and>
   fst (buildFeatureVectorFromWindow sample_parse sample_names_36 None [sample_row]
          ''2024-01-01T07:30:00.000Z'') ! 29 = 1"
proof -
  note valid = hourBin4_one_hot [of sample_parse "''2024-01-01T07:30:00.000Z''" "[sample_row]"
      sample_names_36]
  note invalid = hourBin4_one_hot [of sample_parse "''yesterday''" "[sample_row]" sample_names_36]
  have hb: "hourBin4 sample_parse ''2024-01-01T07:30:00.000Z'' = [0, 1, 0, 0]"
    using valid by (simp add: sample_parse_def replicate4)
  have "(29::nat) < length sample_names_36 \<and> (29::nat) < 36 \<and> (1::nat) < 4 \<and>
      sample_names_36 ! 29 = [''hr_bin_0'', ''hr_bin_1'', ''hr_bin_2'', ''hr_bin_3''] ! 1"
    by (simp add: sample_names_36_hr)
  with valid have "fst (buildFeatureVectorFromWindow sample_parse sample_names_36 None
      [sample_row] ''2024-01-01T07:30:00.000Z'') ! 29
      = hourBin4 sample_parse ''2024-01-01T07:30:00.000Z'' ! 1"
    by blast
  with hb invalid show ?thesis
    by (simp add: sample_parse_def)
qed

subsection \<open>Dew point\<close>

lemma dewpointC_formula:
  assumes "243.12 + t \<noteq> 0"
    and "17.62 * t / (243.12 + t) + ln (max (1 / 10 ^ 6) (rh / 100)) \<noteq> 17.62"
  shows "dewpointC (Some t) (Some rh) =
     Num (Fin (243.12 * (17.62 * t / (243.12 + t) + ln (max (1 / 10 ^ 6) (rh / 100)))
               / (17.62 - (17.62 * t / (243.12 + t) + ln (max (1 / 10 ^ 6) (rh / 100))))))"
  using assms by (simp add: dewpointC_def js_div_def Let_def)

lemma feat_td_spread:
  "feat (feats dparse rows refIso) ''td_spread'' =
     (case (if rows = [] then None else tC (last rows),
            if (if rows = [] then None else tC (last rows)) \<noteq> None \<and>
               (if rows = [] then None else hPct (last rows)) \<noteq> None
            then dewpointC (if rows = [] then None else tC (last rows))
                   (if rows = [] then None else hPct (last rows))
            else Null) of
        (Some t, Num d) \<Rightarrow> Num (js_sub t d)
      | _ \<Rightarrow> Null)"
  by (simp add: feat_def feats_def Let_def)

lemma ln_small_neg: "ln (1 / 10 ^ 6 :: real) < 0" "ln (1 / 10 ^ 8 :: real) < 0"
  by (simp_all add: ln_less_zero_iff)

lemma ln_small_neq: "ln (1 / 10 ^ 6 :: real) \<noteq> ln (1 / 10 ^ 8 :: real)"
  by (simp add: ln_div)

lemma magnus_inj:
  fixes a b g1 g2 :: real
  assumes "b \<noteq> 0" "a \<noteq> 0" "a - g1 \<noteq> 0" "a - g2 \<noteq> 0"
    and "b * g1 / (a - g1) = b * g2 / (a - g2)"
  shows "g1 = g2"
proof -
  from assms have "b * g1 * (a - g2) = b * g2 * (a - g1)"
    by (simp add: frac_eq_eq)
  then have "b * (a * (g1 - g2)) = 0"
    by (simp add: algebra_simps)
  with assms show ?thesis by simp
qed

text \<open>
  C7, as stated, fails: the claim floors the humidity at \<open>1e-6\<close> percent, the code
  floors the humidity fraction \<open>rh / 100\<close> at \<open>1e-6\<close>, which is a humidity of
  \<open>1e-4\<close> percent. At 0 degrees and a humidity of 0 percent the two differ.
\<close>

theorem dewpointC_floor_counterexample: "dewpointC (Some 0) (Some 0) \<noteq> Num (Fin (spec_dewpoint 0 0))"
proof -
  define g1 :: real where "g1 = ln (1 / 10 ^ 6)"
  define g2 :: real where "g2 = ln (1 / 10 ^ 8)"
  have neg: "g1 < 0" "g2 < 0" and ne: "g1 \<noteq> g2"
    using ln_small_neg ln_small_neq by (simp_all add: g1_def g2_def)
  have "dewpointC (Some 0) (Some 0) = Num (js_div (243.12 * g1) (17.62 - g1))"
    by (simp add: dewpointC_def js_div_def Let_def g1_def)
  moreover have "17.62 - g1 \<noteq> 0" using neg(1) by simp
  ultimately have code: "dewpointC (Some 0) (Some 0) = Num (Fin (243.12 * g1 / (17.62 - g1)))"
    by (simp add: js_div_def)
  have spec: "spec_dewpoint 0 0 = 243.12 * g2 / (17.62 - g2)"
    by (simp add: spec_dewpoint_def Let_def g2_def)
  have "243.12 * g1 / (17.62 - g1) \<noteq> 243.12 * g2 / (17.62 - g2)"
  proof
    assume "243.12 * g1 / (17.62 - g1) = 243.12 * g2 / (17.62 - g2)"
    moreover have "17.62 - g1 \<noteq> 0" "17.62 - g2 \<noteq> 0" using neg by simp_all
    ultimately have "g1 = g2"
      using magnus_inj [of "243.12" "17.62" g1 g2] by simp
    with ne show False by simp
  qed
  with code spec show ?thesis by simp
qed

text \<open>
  C7, amended. For every non-null temperature \<open>t\<close> and relative humidity \<open>rh\<close> the
  dew point is the Magnus form with \<open>a = 17.62\<close> and \<open>b = 243.12\<close>, the humidity
  fraction \<open>rh / 100\<close> being floored at \<open>1e-6\<close> before the logarithm:
  \<open>gamma = a * t / (b + t) + ln (max 1e-6 (rh / 100))\<close> and
  \<open>dewpoint = b * gamma / (a - gamma)\<close>, wherever the two divisors are not zero; the
  spread feature of a window whose last sample has these readings is \<open>t\<close> minus that
  dew point.
\<close>

theorem dewpointC_magnus:
  assumes "243.12 + t \<noteq> 0"
    and "gamma = 17.62 * t / (243.12 + t) + ln (max (1 / 10 ^ 6) (rh / 100))"
    and "gamma \<noteq> 17.62"
  shows "dewpointC (Some t) (Some rh) = Num (Fin (243.12 * gamma / (17.62 - gamma))) \<and>
    (rows \<noteq> [] \<and> tC (last rows) = Some t \<and> hPct (last rows) = Some rh \<longrightarrow>
       feat (feats dparse rows refIso) ''dewpoint'' = Num (Fin (243.12 * gamma / (17.62 - gamma))) \<and>
       feat (feats dparse rows refIso) ''td_spread''
         = Num (Fin (t - 243.12 * gamma / (17.62 - gamma))))"
proof -
  have dp: "dewpointC (Some t) (Some rh) = Num (Fin (243.12 * gamma / (17.62 - gamma)))"
    using dewpointC_formula [of t rh] assms by simp
  have "feat (feats dparse rows refIso) ''dewpoint'' =
      (if (if rows = [] then None else tC (last rows)) \<noteq> None \<and>
          (if rows = [] then None else hPct (last rows)) \<noteq> None
       then dewpointC (if rows = [] then None else tC (last rows))
              (if rows = [] then None else hPct (last rows))
       else Null)"
    by (simp add: feat_def feats_def Let_def)
  with dp show ?thesis
    by (simp add: feat_td_spread)
qed

theorem dewpointC_magnus_witness:
  "dewpointC (Some 0) (Some 100) = Num (Fin 0) \<and>
   feat (feats sample_parse [\<lparr>tms = 0, iso = [], tC = Some 0, hPct = Some 100\<rparr>] [])
     ''td_spread'' = Num (Fin 0)"
  using dewpointC_magnus [of 0 0 100 "[\<lparr>tms = 0, iso = [], tC = Some 0, hPct = Some 100\<rparr>]"
      sample_parse "[]"]
  by simp

subsection \<open>Extraction of the probabilities\<close>

lemma find_in_set: "List.find P xs = Some x \<Longrightarrow> x \<in> set xs \<and> P x"
  by (induction xs) (auto split: if_splits)

lemma first_hd: "names \<noteq> [] \<Longrightarrow> first names = Some (hd names)"
  by (cases names) simp_all

lemma chosenOutput_priority:
  assumes "names \<noteq> []" and "\<forall>n \<in> set names. n \<noteq> [] \<and> runOutput n \<noteq> None"
  shows "chosenOutput names runOutput =
     (case List.find test_prob names of
        Some n \<Rightarrow> runOutput n
      | None \<Rightarrow>
          (case List.find (has2dims runOutput) names of
             Some n \<Rightarrow> runOutput n
           | None \<Rightarrow> runOutput (hd names)))"
proof -
  have present: "\<And>n. n \<in> set names \<Longrightarrow> n \<noteq> [] \<and> (\<exists>out. runOutput n = Some out)"
    using assms(2) by auto
  have hd_in: "hd names \<in> set names" using assms(1) by simp
  show ?thesis
  proof (cases "List.find test_prob names")
    case (Some n)
    then have "n \<in> set names" by (simp add: find_in_set)
    with present [of n] Some show ?thesis
      by (auto simp: chosenOutput_def probName_def)
  next
    case None
    show ?thesis
    proof (cases "List.find (has2dims runOutput) names")
      case (Some n)
      then have "n \<in> set names" by (simp add: find_in_set)
      with present [of n] Some None show ?thesis
        by (auto simp: chosenOutput_def probName_def)
    next
      case None2: None
      with None present [OF hd_in] assms(1) show ?thesis
        by (auto simp: chosenOutput_def probName_def first_hd)
    qed
  qed
qed

lemma chosenOutput_present:
  assumes "names \<noteq> []" and "\<forall>n \<in> set names. n \<noteq> [] \<and> runOutput n \<noteq> None"
  shows "\<exists>out. chosenOutput names runOutput = Some out"
proof -
  have hd_in: "hd names \<in> set names" using assms(1) by simp
  have "\<And>n. n \<in> set names \<Longrightarrow> \<exists>out. runOutput n = Some out"
    using assms(2) by auto
  then show ?thesis
    using hd_in
    by (auto simp: chosenOutput_priority [OF assms] split: option.splits dest: find_in_set)
qed

lemma Math_max_Fin: "Math_max (Fin a) (Fin b) = Fin (max a b)"
  by (simp add: Math_max_def max_def)

lemma Math_max_NegInf: "Math_max NegInf (Fin b) = Fin b"
  by (simp add: Math_max_def)

lemma row_scan:
  assumes "off + k \<le> length rs"
  shows "foldl (\<lambda>best j. Math_max best (ToNumber (item_at (map Fin rs) (off + j)))) NegInf [0..<k]
     = (if k = 0 then NegInf else Fin (Max (set (take k (drop off rs)))))"
  using assms
proof (induction k)
  case 0
  then show ?case by simp
next
  case (Suc k)
  then have lt: "off + k < length rs" by simp
  then have nth: "item_at (map Fin rs) (off + k) = Num (Fin (rs ! (off + k)))"
    by (simp add: item_at_def)
  have tk: "take (Suc k) (drop off rs) = take k (drop off rs) @ [rs ! (off + k)]"
    using lt by (simp add: take_Suc_conv_app_nth)
  show ?case
  proof (cases "k = 0")
    case True
    then show ?thesis using nth tk by (simp add: Math_max_NegInf)
  next
    case False
    then have ne: "set (take k (drop off rs)) \<noteq> {}" using lt by simp
    have "Max (set (take (Suc k) (drop off rs)))
        = max (rs ! (off + k)) (Max (set (take k (drop off rs))))"
      unfolding tk using ne by simp
    then show ?thesis
      using Suc False nth by (simp add: Math_max_Fin max.commute)
  qed
qed

lemma row_best_Max:
  assumes "0 < C" "i * C + C \<le> length rs"
  shows "row_best (map Fin rs) C i = Fin (Max (set (take C (drop (i * C) rs))))"
  using row_scan [OF assms(2)] assms(1) by (simp add: row_best_def)

lemma extractProbs_two_columns:
  assumes "chosenOutput names runOutput = Some out" "dims out = [N, 2]"
    "length (data out) = prod_list (dims out)"
  shows "extractProbs names runOutput = Inr (map (\<lambda>i. Num (data out ! (2 * i + 1))) [0..<N])"
  using assms by (simp add: extractProbs_def toNumberArray_def item_at_def mult.commute)

lemma extractProbs_one_column:
  assumes "chosenOutput names runOutput = Some out" "dims out = [N, 1]"
    "length (data out) = prod_list (dims out)"
  shows "extractProbs names runOutput = Inr (map Num (data out))"
  using assms by (simp add: extractProbs_def toNumberArray_def)

lemma extractProbs_multiclass:
  assumes "chosenOutput names runOutput = Some out" "dims out = [N, C]" "2 < C"
    "length (data out) = prod_list (dims out)" "data out = map Fin rs"
  shows "extractProbs names runOutput =
     Inr (map (\<lambda>i. Num (Fin (Max (set (take C (drop (i * C) rs)))))) [0..<N])"
proof -
  have len: "length rs = N * C" using assms(2,4,5) by simp
  have "row_best (map Fin rs) C i = Fin (Max (set (take C (drop (i * C) rs))))" if "i < N" for i
  proof -
    from that have "Suc i \<le> N" by simp
    then have "Suc i * C \<le> N * C" by (rule mult_le_mono1)
    then have "i * C + C \<le> length rs" by (simp add: len)
    with assms(3) show ?thesis by (intro row_best_Max) simp_all
  qed
  then show ?thesis
    using assms(1,2,3,5) by (simp add: extractProbs_def toNumberArray_def)
qed

lemma extractProbs_vector:
  assumes "chosenOutput names runOutput = Some out" "dims out = [N]"
    "length (data out) = prod_list (dims out)"
  shows "extractProbs names runOutput = Inr (map Num (data out))"
  using assms by (simp add: extractProbs_def toNumberArray_def)

lemma extractProbs_other:
  assumes "chosenOutput names runOutput = Some out"
    "length (dims out) \<noteq> 1" "length (dims out) \<noteq> 2"
  shows "extractProbs names runOutput = Inr (map Num (data out))"
  using assms by (simp add: extractProbs_def toNumberArray_def)

lemma prob_here_iff:
  "prob_here n =
     (\<exists>c1 c2 c3 c4 suf. n = [c1, c2, c3, c4] @ suf \<and>
        c1 \<in> {CHR ''p'', CHR ''P''} \<and> c2 \<in> {CHR ''r'', CHR ''R''} \<and>
        c3 \<in> {CHR ''o'', CHR ''O''} \<and> c4 \<in> {CHR ''b'', CHR ''B''})"
  by (induction n rule: prob_here.induct) auto

lemma test_prob_iff: "test_prob n = spec_contains_prob n"
proof (induction n)
  case Nil
  then show ?case by (simp add: spec_contains_prob_def)
next
  case (Cons c cs)
  have "spec_contains_prob (c # cs) = (prob_here (c # cs) \<or> spec_contains_prob cs)"
  proof
    assume "spec_contains_prob (c # cs)"
    then obtain pre c1 c2 c3 c4 suf where n: "c # cs = pre @ [c1, c2, c3, c4] @ suf"
      and cs: "c1 \<in> {CHR ''p'', CHR ''P''}" "c2 \<in> {CHR ''r'', CHR ''R''}"
        "c3 \<in> {CHR ''o'', CHR ''O''}" "c4 \<in> {CHR ''b'', CHR ''B''}"
      unfolding spec_contains_prob_def by blast
    show "prob_here (c # cs) \<or> spec_contains_prob cs"
    proof (cases pre)
      case Nil
      with n cs have "prob_here (c # cs)"
        unfolding prob_here_iff by auto
      then show ?thesis ..
    next
      case (Cons p pre')
      with n have "cs = pre' @ [c1, c2, c3, c4] @ suf" by simp
      with cs have "spec_contains_prob cs"
        unfolding spec_contains_prob_def by blast
      then show ?thesis ..
    qed
  next
    assume "prob_here (c # cs) \<or> spec_contains_prob cs"
    then show "spec_contains_prob (c # cs)"
    proof
      assume "prob_here (c # cs)"
      then obtain c1 c2 c3 c4 suf where "c # cs = [] @ [c1, c2, c3, c4] @ suf"
        "c1 \<in> {CHR ''p'', CHR ''P''}" "c2 \<in> {CHR ''r'', CHR ''R''}"
        "c3 \<in> {CHR ''o'', CHR ''O''}" "c4 \<in> {CHR ''b'', CHR ''B''}"
        unfolding prob_here_iff by auto
      then show ?thesis unfolding spec_contains_prob_def by blast
    next
      assume "spec_contains_prob cs"
      then obtain pre c1 c2 c3 c4 suf where "cs = pre @ [c1, c2, c3, c4] @ suf"
        and cs: "c1 \<in> {CHR ''p'', CHR ''P''}" "c2 \<in> {CHR ''r'', CHR ''R''}"
          "c3 \<in> {CHR ''o'', CHR ''O''}" "c4 \<in> {CHR ''b'', CHR ''B''}"
        unfolding spec_contains_prob_def by blast
      then have "c # cs = (c # pre) @ [c1, c2, c3, c4] @ suf" by simp
      with cs show ?thesis unfolding spec_contains_prob_def by blast
    qed
  qed
  with Cons show ?case by simp
qed

lemma has2dims_iff: "has2dims runOutput n = spec_two_dimensional runOutput n"
  by (simp add: has2dims_def spec_two_dimensional_def split: option.splits)

lemma find_pred_cong: "(\<And>x. P x = Q x) \<Longrightarrow> List.find P xs = List.find Q xs"
  by (induction xs) simp_all

lemma chosenOutput_spec_priority:
  assumes "names \<noteq> []" and "\<forall>n \<in> set names. n \<noteq> [] \<and> runOutput n \<noteq> None"
  shows "chosenOutput names runOutput =
     (case List.find spec_contains_prob names of
        Some n \<Rightarrow> runOutput n
      | None \<Rightarrow>
          (case List.find (spec_two_dimensional runOutput) names of
             Some n \<Rightarrow> runOutput n
           | None \<Rightarrow> runOutput (hd names)))"
proof -
  have "List.find test_prob names = List.find spec_contains_prob names"
    by (rule find_pred_cong) (rule test_prob_iff)
  moreover have "List.find (has2dims runOutput) names
      = List.find (spec_two_dimensional runOutput) names"
    by (rule find_pred_cong) (rule has2dims_iff)
  ultimately show ?thesis
    using chosenOutput_priority [OF assms] by (simp cong: option.case_cong)
qed

text \<open>
  C1. For a run output that holds a tensor for every declared output name (the names not
  empty), \<^verbatim>\<open>extractProbs\<close> reads the first output whose name contains \<^verbatim>\<open>prob\<close> in any
  case, else the first output with two dimensions, else the first declared output. For a
  tensor whose data has as many entries as its shape says: shape \<open>[N, 2]\<close> gives
  column 1 of each row, in row order; shape \<open>[N, 1]\<close> the single column; shape
  \<open>[N, C]\<close> with \<open>C > 2\<close> and finite entries the maximum of each row; shape
  \<open>[N]\<close> the scalars themselves. Any other shape gives the raw data.
\<close>

theorem extractProbs_spec:
  assumes "names \<noteq> []" and "\<forall>n \<in> set names. n \<noteq> [] \<and> runOutput n \<noteq> None"
  shows "\<exists>out. chosenOutput names runOutput = Some out \<and>
     (case List.find spec_contains_prob names of
        Some n \<Rightarrow> runOutput n = Some out
      | None \<Rightarrow>
          (case List.find (spec_two_dimensional runOutput) names of
             Some n \<Rightarrow> runOutput n = Some out
           | None \<Rightarrow> runOutput (hd names) = Some out)) \<and>
     (length (data out) = prod_list (dims out) \<longrightarrow>
        (\<forall>N. dims out = [N, 2] \<longrightarrow>
           extractProbs names runOutput = Inr (map (\<lambda>i. Num (data out ! (2 * i + 1))) [0..<N])) \<and>
        (\<forall>N. dims out = [N, 1] \<longrightarrow>
           extractProbs names runOutput = Inr (map Num (data out))) \<and>
        (\<forall>N C rs. dims out = [N, C] \<and> 2 < C \<and> data out = map Fin rs \<longrightarrow>
           extractProbs names runOutput =
             Inr (map (\<lambda>i. Num (Fin (Max (set (take C (drop (i * C) rs)))))) [0..<N])) \<and>
        (\<forall>N. dims out = [N] \<longrightarrow>
           extractProbs names runOutput = Inr (map Num (data out)))) \<and>
     (length (dims out) \<noteq> 1 \<and> length (dims out) \<noteq> 2 \<longrightarrow>
        extractProbs names runOutput = Inr (map Num (data out)))"
proof -
  from chosenOutput_present [OF assms] obtain out
    where out: "chosenOutput names runOutput = Some out" by blast
  have sel: "(case List.find spec_contains_prob names of
        Some n \<Rightarrow> runOutput n = Some out
      | None \<Rightarrow>
          (case List.find (spec_two_dimensional runOutput) names of
             Some n \<Rightarrow> runOutput n = Some out
           | None \<Rightarrow> runOutput (hd names) = Some out))"
    using out unfolding chosenOutput_spec_priority [OF assms]
    by (simp split: option.splits)
  show ?thesis
    using out sel extractProbs_two_columns [OF out] extractProbs_one_column [OF out]
      extractProbs_multiclass [OF out] extractProbs_vector [OF out] extractProbs_other [OF out]
    by blast
qed

theorem extractProbs_spec_witness:
  "extractProbs [''label'', ''probabilities'']
     (sample_run [Fin 0.9, Fin 0.1, Fin 0.2, Fin 0.8, Fin 0.5, Fin 0.5] [3, 2])
     = Inr [Num (Fin 0.1), Num (Fin 0.8), Num (Fin 0.5)] \<and>
   extractProbs [''label'', ''probabilities''] (sample_run [Fin 0.3, Fin 0.7] [2, 1])
     = Inr [Num (Fin 0.3), Num (Fin 0.7)] \<and>
   extractProbs [''label'', ''probabilities''] (sample_run [Fin 0.42] [1])
     = Inr [Num (Fin 0.42)] \<and>
   extractProbs [''label'', ''probabilities'']
     (sample_run (map Fin [0.2, 0.5, 0.3, 0.6, 0.1, 0.3]) [2, 3])
     = Inr [Num (Fin 0.5), Num (Fin 0.6)] \<and>
   extractProbs [''label'', ''probabilities''] (sample_run [Fin 0.1, Fin 0.2] [1, 2, 1])
     = Inr [Num (Fin 0.1), Num (Fin 0.2)] \<and>
   extractProbs [''scores'', ''class_PROBS'']
     (run_of ''scores'' \<lparr>data = [Fin 0.3, Fin 0.7], dims = [2, 1]\<rparr>
        ''class_PROBS'' \<lparr>data = [Fin 0.42], dims = [1]\<rparr>)
     = Inr [Num (Fin 0.42)] \<and>
   extractProbs [''label'', ''scores'']
     (run_of ''label'' \<lparr>data = [Fin 0, Fin 1, Fin 1], dims = [3]\<rparr>
        ''scores'' \<lparr>data = [Fin 0.9, Fin 0.1, Fin 0.2, Fin 0.8, Fin 0.5, Fin 0.5],
                   dims = [3, 2]\<rparr>)
     = Inr [Num (Fin 0.1), Num (Fin 0.8), Num (Fin 0.5)] \<and>
   extractProbs [''label'', ''variable'']
     (run_of ''label'' \<lparr>data = [Fin 0.42], dims = [1]\<rparr>
        ''variable'' \<lparr>data = [Fin 0.3, Fin 0.7], dims = [2]\<rparr>)
     = Inr [Num (Fin 0.42)]"
proof -
  let ?names = "[''label'', ''probabilities'']"
  have names: "?names \<noteq> []" by simp
  have present: "\<forall>n \<in> set ?names. n \<noteq> [] \<and> sample_run dat ds n \<noteq> None" for dat ds
    by (simp add: sample_run_def)
  have chosen: "chosenOutput ?names (sample_run dat ds) = Some \<lparr>data = dat, dims = ds\<rparr>" for dat ds
    by (simp add: chosenOutput_def probName_def sample_run_def)
  have upt: "[0..<3] = [0, 1, 2]" "[0..<2] = [0, 1]"
    by (simp_all add: upt_rec)
  let ?rs = "[0.2, 0.5, 0.3, 0.6, 0.1, 0.3] :: real list"
  have multi: "extractProbs ?names (sample_run (map Fin ?rs) [2, 3])
      = Inr (map (\<lambda>i. Num (Fin (Max (set (take 3 (drop (i * 3) ?rs)))))) [0..<2])"
  proof -
    from extractProbs_spec [OF names present, of "map Fin ?rs" "[2, 3]"]
    obtain out where out: "chosenOutput ?names (sample_run (map Fin ?rs) [2, 3]) = Some out"
      and cases: "length (data out) = prod_list (dims out) \<longrightarrow>
        (\<forall>N C rs. dims out = [N, C] \<and> 2 < C \<and> data out = map Fin rs \<longrightarrow>
           extractProbs ?names (sample_run (map Fin ?rs) [2, 3]) =
             Inr (map (\<lambda>i. Num (Fin (Max (set (take C (drop (i * C) rs)))))) [0..<N]))"
      by blast
    from out have "out = \<lparr>data = map Fin ?rs, dims = [2, 3]\<rparr>"
      by (simp only: chosen option.inject)
    then have "length (data out) = prod_list (dims out)"
      "dims out = [2, 3] \<and> 2 < (3::nat) \<and> data out = map Fin ?rs"
      by simp_all
    with cases show ?thesis by blast
  qed
  let ?byname = "run_of ''scores'' \<lparr>data = [Fin 0.3, Fin 0.7], dims = [2, 1]\<rparr>
        ''class_PROBS'' \<lparr>data = [Fin 0.42], dims = [1]\<rparr>"
  have byname: "extractProbs [''scores'', ''class_PROBS''] ?byname = Inr [Num (Fin 0.42)]"
  proof -
    have "[''scores'', ''class_PROBS''] \<noteq> []"
      "\<forall>n \<in> set [''scores'', ''class_PROBS'']. n \<noteq> [] \<and> ?byname n \<noteq> None"
      by (simp_all add: run_of_def)
    from extractProbs_spec [OF this] show ?thesis
      by (simp add: test_prob_iff [symmetric] has2dims_iff [symmetric] has2dims_def run_of_def)
  qed
  let ?byshape = "run_of ''label'' \<lparr>data = [Fin 0, Fin 1, Fin 1], dims = [3]\<rparr>
        ''scores'' \<lparr>data = [Fin 0.9, Fin 0.1, Fin 0.2, Fin 0.8, Fin 0.5, Fin 0.5],
                   dims = [3, 2]\<rparr>"
  have byshape: "extractProbs [''label'', ''scores''] ?byshape
      = Inr [Num (Fin 0.1), Num (Fin 0.8), Num (Fin 0.5)]"
  proof -
    have "[''label'', ''scores''] \<noteq> []"
      "\<forall>n \<in> set [''label'', ''scores'']. n \<noteq> [] \<and> ?byshape n \<noteq> None"
      by (simp_all add: run_of_def)
    from extractProbs_spec [OF this] show ?thesis
      by (simp add: test_prob_iff [symmetric] has2dims_iff [symmetric] has2dims_def run_of_def upt)
  qed
  let ?byorder = "run_of ''label'' \<lparr>data = [Fin 0.42], dims = [1]\<rparr>
        ''variable'' \<lparr>data = [Fin 0.3, Fin 0.7], dims = [2]\<rparr>"
  have byorder: "extractProbs [''label'', ''variable''] ?byorder = Inr [Num (Fin 0.42)]"
  proof -
    have "[''label'', ''variable''] \<noteq> []"
      "\<forall>n \<in> set [''label'', ''variable'']. n \<noteq> [] \<and> ?byorder n \<noteq> None"
      by (simp_all add: run_of_def)
    from extractProbs_spec [OF this] show ?thesis
      by (simp add: test_prob_iff [symmetric] has2dims_iff [symmetric] has2dims_def run_of_def)
  qed
  show ?thesis
    using
      extractProbs_spec [OF names present, of "[Fin 0.9, Fin 0.1, Fin 0.2, Fin 0.8, Fin 0.5, Fin 0.5]" "[3, 2]"]
      extractProbs_spec [OF names present, of "[Fin 0.3, Fin 0.7]" "[2, 1]"]
      extractProbs_spec [OF names present, of "[Fin 0.42]" "[1]"]
      extractProbs_spec [OF names present, of "[Fin 0.1, Fin 0.2]" "[1, 2, 1]"]
      multi byname byshape byorder
    by (simp add: chosen upt)
qed

subsection \<open>The empty batch\<close>

lemma collect_no_samples:
  assumes "\<forall>doc \<in> set rawItems. sampleOf env doc = Inr None"
  shows "collect env rawItems m = Inr m"
  using assms by (induction rawItems arbitrary: m) simp_all

lemma sensorsLoop_lengths:
  assumes "sensorsLoop env asForward horizonH entries (vecs0, ms0, ws0) = Inr (vecs, ms, ws)"
    and "length vecs0 = length ms0"
  shows "length vecs = length ms"
  using assms
proof (induction entries arbitrary: vecs0 ms0 ws0)
  case Nil
  then show ?case by simp
next
  case (Cons entry entries)
  obtain sid arr where entry: "entry = (sid, arr)" by (cases entry)
  show ?case
  proof (cases "arr = []")
    case True
    with Cons entry show ?thesis by simp
  next
    case False
    with Cons.prems(1) entry obtain vec m ws1
      where "sensorVector env asForward horizonH sid arr = Inr (vec, m, ws1)"
        and "sensorsLoop env asForward horizonH entries (vecs0 @ [vec], ms0 @ [m], ws0 @ ws1)
               = Inr (vecs, ms, ws)"
      by (auto split: sum.splits)
    with Cons.IH [of "vecs0 @ [vec]" "ms0 @ [m]" "ws0 @ ws1"] Cons.prems(2)
    show ?thesis by simp
  qed
qed

lemma buildBatches_loop:
  assumes "buildBatches env rawItems asForward horizonH = Inr b"
  obtains groups vecs ms ws where
    "groupBySensor env rawItems = Inr groups"
    "sensorsLoop env asForward horizonH groups ([], [], []) = Inr (vecs, ms, ws)"
    "length vecs = length ms"
proof -
  from assms obtain groups vecs ms ws
    where g: "groupBySensor env rawItems = Inr groups"
      and loop: "sensorsLoop env asForward horizonH groups ([], [], []) = Inr (vecs, ms, ws)"
    by (auto simp: buildBatches_def split: sum.splits)
  from loop have "length vecs = length ms"
    by (rule sensorsLoop_lengths) simp
  with g loop that show ?thesis by blast
qed

lemma buildBatches_rows:
  assumes "buildBatches env rawItems asForward horizonH = Inr b"
  shows "dims (tensor b) = [length (metas b), 36]"
proof -
  from assms obtain groups vecs ms ws
    where "groupBySensor env rawItems = Inr groups"
      "sensorsLoop env asForward horizonH groups ([], [], []) = Inr (vecs, ms, ws)"
      "length vecs = length ms"
    by (rule buildBatches_loop)
  with assms show ?thesis
    by (auto simp: buildBatches_def split: if_splits)
qed

lemma buildBatches_no_data:
  assumes "buildBatches env rawItems asForward horizonH = Inr b" "metas b = []"
  shows "data (tensor b) = []"
proof -
  from assms(1) obtain groups vecs ms ws
    where "groupBySensor env rawItems = Inr groups"
      "sensorsLoop env asForward horizonH groups ([], [], []) = Inr (vecs, ms, ws)"
      "length vecs = length ms"
    by (rule buildBatches_loop)
  with assms show ?thesis
    by (auto simp: buildBatches_def split: if_splits)
qed

lemma predict_zero_rows:
  assumes "buildBatches env rawItems fwd horizonH = Inr b" "dims (tensor b) ! 0 = 0"
  shows "tensor b = \<lparr>data = [], dims = [0, 36]\<rparr>" "metas b = []"
    "predict env fwd horizonH (Inr rawItems) run =
        \<lparr>status = 200,
         body = Scores \<lparr>forward = fwd, horizonHours = horizonH, featureCount = None,
                        count = 0, points = []\<rparr>\<rparr>"
proof -
  from buildBatches_rows [OF assms(1)] assms(2)
  have m: "metas b = []" and d: "dims (tensor b) = [0, 36]"
    by simp_all
  from buildBatches_no_data [OF assms(1) m] d
  show "tensor b = \<lparr>data = [], dims = [0, 36]\<rparr>" by simp
  show "metas b = []" by (rule m)
  show "predict env fwd horizonH (Inr rawItems) run =
        \<lparr>status = 200,
         body = Scores \<lparr>forward = fwd, horizonHours = horizonH, featureCount = None,
                        count = 0, points = []\<rparr>\<rparr>"
    using assms by (simp add: predict_def)
qed

lemma buildBatches_no_samples:
  assumes "\<forall>doc \<in> set rawItems. sampleOf env doc = Inr None"
  shows "buildBatches env rawItems fwd horizonH =
        Inr \<lparr>tensor = \<lparr>data = [], dims = [0, 36]\<rparr>, metas = [], console = []\<rparr>"
  using assms by (simp add: buildBatches_def groupBySensor_def collect_no_samples)

lemma pickTime_invalid_ts:
  assumes "js_or (time_field env doc) (js_or (time_prop env doc) (iso_prop env doc)) = None"
    "ts_prop env doc = Some v" "ts_truthy v" "date_of_ts env v = None"
  shows "pickTime env doc = Inl (RangeError ''Invalid time value'')"
  using assms by (simp add: pickTime_def)

lemma buildBatches_pickTime_throws:
  assumes "pickTime env doc = Inl e"
  shows "buildBatches env (doc # rest) fwd horizonH = Inl e"
    and "predict env fwd horizonH (Inr (doc # rest)) run = server_error e"
  using assms by (simp_all add: predict_def buildBatches_def groupBySensor_def sampleOf_def)

text \<open>
  C8 fails on the code for a document whose time is given only by a \<^verbatim>\<open>ts\<close> that is
  not a valid date. No sensor produces a feature vector, but \<^verbatim>\<open>pickTime\<close> throws a
  \<^verbatim>\<open>RangeError\<close> from \<^verbatim>\<open>toISOString\<close>, \<^verbatim>\<open>buildBatches\<close> returns nothing and the
  \<^verbatim>\<open>/predict\<close> handler answers with status 500, not with status 200 and \<^verbatim>\<open>count: 0\<close>.
  The same invalid text under \<^verbatim>\<open>time\<close> is dropped by the test of the loop and gives
  the empty result of the claim.
\<close>

theorem predict_invalid_ts:
  "buildBatches sample_env [(None, Some (TsStr ''abc''), ''s1'', Some 1, None)] False (Fin 8)
     = Inl (RangeError ''Invalid time value'') \<and>
   predict sample_env False (Fin 8) (Inr [(None, Some (TsStr ''abc''), ''s1'', Some 1, None)])
     sample_model
     = \<lparr>status = 500, body = Failure ''Invalid time value''\<rparr> \<and>
   predict sample_env False (Fin 8)
     (Inr [(None, Some (TsNum (Fin 1700000000000000000)), ''s1'', Some 1, None)]) sample_model
     = \<lparr>status = 500, body = Failure ''Invalid time value''\<rparr> \<and>
   predict sample_env False (Fin 8)
     (Inr [(Some ''abc'', None, ''s1'', Some 1, None)]) sample_model
     = \<lparr>status = 200,
        body = Scores \<lparr>forward = False, horizonHours = Fin 8, featureCount = None,
                       count = 0, points = []\<rparr>\<rparr>"
  by (simp add: predict_def buildBatches_def groupBySensor_def sampleOf_def pickTime_def
      sample_env_def sample_parse_def server_error_def)

subsection \<open>Decisions\<close>

lemma decision_numeric:
  "decision (toItem tf thr json (p\<lparr>p_score := Num (Fin v)\<rparr>))
     = (if js_ge (Fin v) thr then TAKE_ACTION else NO_ACTION)"
  by (simp add: toItem_def safeNumber_def Let_def)

lemma decision_examples:
  "decision (toItem tf (Fin 0.8) json (p\<lparr>p_score := Num (Fin 0.85)\<rparr>)) = TAKE_ACTION"
  "decision (toItem tf (Fin 0.8) json (p\<lparr>p_score := Num (Fin 0.79)\<rparr>)) = NO_ACTION"
  "decision (toItem tf (Fin 0.8) json (p\<lparr>p_score := Undefined\<rparr>)) = UNKNOWN"
  "decision (toItem tf (Fin 0.8) json (p\<lparr>p_score := Num NaN\<rparr>)) = UNKNOWN"
  by (simp_all add: toItem_def safeNumber_def Let_def js_ge_def)

lemma toItem_null_score:
  "toItem tf (Fin 0.8) json \<lparr>p_sensorName = Some ''s1'', p_time = Some ''2024-01-01T00:00:00.000Z'',
      p_score = Null\<rparr>
   = \<lparr>sensorName = ''s1'', time = ''2024-01-01T00:00:00.000Z'', score = Some 0,
      decision = NO_ACTION,
      reason = ''Frost risk '' @ tf 0 @ ''% < '' @ tf 80 @ ''%''\<rparr>"
  by (simp add: toItem_def safeNumber_def js_ge_def pct_def)

text \<open>
  C2 fails on the code for a probability that is \<^verbatim>\<open>null\<close>. \<^verbatim>\<open>safeNumber(null)\<close> is
  \<^verbatim>\<open>Number(null)\<close>, which is 0 and finite: the row gets the score 0 and, with the
  threshold 0.8, the decision \<^verbatim>\<open>NO ACTION\<close>, not \<^verbatim>\<open>UNKNOWN\<close>.
\<close>

theorem pollPredictor_null_score:
  "pollPredictor sample_host ''2024-01-02T00:00:00.000Z'' []
     (Parsed (Some \<lparr>j_points = Some [\<lparr>p_sensorName = Some ''s1'',
                                        p_time = Some ''2024-01-01T00:00:00.000Z'',
                                        p_score = Null\<rparr>],
                   j_forward = True, j_horizonHours = ''8''\<rparr>))
     sample_state
   = Inr (sample_state
            \<lparr>lastRunAt := Some ''2024-01-02T00:00:00.000Z'', error := None,
             items := [\<lparr>sensorName = ''s1'', time = ''2024-01-01T00:00:00.000Z'',
                        score = Some 0, decision = NO_ACTION,
                        reason = ''Frost risk 0.0% < 80.0%''\<rparr>]\<rparr>, [])"
  by (simp add: pollPredictor_def sample_host_def toItem_def safeNumber_def js_ge_def pct_def
      latestBySensor_def keepLatest_def sort_by_def broadcast_def)

subsection \<open>The latest decision of each sensor\<close>

lemma map_of_map_set: "map_of (map_set m k v) = (map_of m)(k \<mapsto> v)"
  by (induction m) (auto simp: fun_eq_iff)

lemma keepLatest_unparsable_stays:
  assumes "map_of m (sensorName a) = Some a" "time a \<noteq> []" "dparse (time a) = None"
  shows "map_of (keepLatest dparse m it) (sensorName a) = Some a"
  using assms
  by (auto simp: keepLatest_def Let_def later_than_def map_of_map_set split: option.splits)

lemma foldl_keepLatest_unparsable_stays:
  assumes "map_of m (sensorName a) = Some a" "time a \<noteq> []" "dparse (time a) = None"
  shows "map_of (foldl (keepLatest dparse) m its) (sensorName a) = Some a"
  using assms(1)
proof (induction its arbitrary: m)
  case Nil
  then show ?case by simp
next
  case (Cons it its)
  have "map_of (keepLatest dparse m it) (sensorName a) = Some a"
    using Cons.prems assms(2,3) by (rule keepLatest_unparsable_stays)
  then show ?case using Cons.IH by simp
qed

lemma latestBySensor_unparsable_stays:
  assumes "time a \<noteq> []" "dparse (time a) = None"
  shows "map_of (latestBySensor dparse (a # its)) (sensorName a) = Some a"
proof -
  have "map_of (keepLatest dparse [] a) (sensorName a) = Some a"
    by (simp add: keepLatest_def)
  then have "map_of (foldl (keepLatest dparse) (keepLatest dparse [] a) its) (sensorName a) = Some a"
    using assms by (rule foldl_keepLatest_unparsable_stays)
  then show ?thesis by (simp add: latestBySensor_def)
qed

lemma latestBySensor_later_wins:
  assumes "sensorName a = sensorName b" "time a \<noteq> []" "time b \<noteq> []"
    "dparse (time a) = Some x" "dparse (time b) = Some y" "x < y"
  shows "latestBySensor dparse [a, b] = [(sensorName b, b)]"
    and "latestBySensor dparse [b, a] = [(sensorName b, b)]"
  using assms by (simp_all add: latestBySensor_def keepLatest_def later_than_def)

lemma latestBySensor_unparsable_first:
  "latestBySensor sample_parse
     [sample_item ''s1'' ''not a date'' 0.1, sample_item ''s1'' ''2024-01-02T00:00:00.000Z'' 0.2]
   = [(''s1'', sample_item ''s1'' ''not a date'' 0.1)]"
  by (simp add: latestBySensor_def keepLatest_def later_than_def sample_item_def sample_parse_def)

text \<open>
  C3 fails on the code when a time does not parse. \<^verbatim>\<open>Date.parse\<close> of such a time is
  \<^verbatim>\<open>NaN\<close>, not 0, and every comparison with it is false: a decision whose time does not
  parse, once stored for a sensor, is never replaced, here by a decision of a valid and
  later instant.
\<close>

theorem pollPredictor_unparsable_first:
  "pollPredictor sample_host ''2024-01-02T00:00:00.000Z'' []
     (Parsed (Some \<lparr>j_points = Some [\<lparr>p_sensorName = Some ''s1'', p_time = Some ''not a date'',
                                        p_score = Num (Fin 0.79)\<rparr>,
                                       \<lparr>p_sensorName = Some ''s1'',
                                        p_time = Some ''2024-01-02T00:00:00.000Z'',
                                        p_score = Num (Fin 0.85)\<rparr>],
                   j_forward = False, j_horizonHours = ''8''\<rparr>))
     sample_state
   = Inr (sample_state
            \<lparr>lastRunAt := Some ''2024-01-02T00:00:00.000Z'', error := None,
             items := [\<lparr>sensorName = ''s1'', time = ''not a date'',
                        score = Some 0.79, decision = NO_ACTION,
                        reason = ''Frost risk 79.0% < 80.0%''\<rparr>]\<rparr>, [])"
  by (simp add: pollPredictor_def sample_host_def toItem_def safeNumber_def js_ge_def pct_def
      latestBySensor_def keepLatest_def later_than_def sample_parse_def sort_by_def broadcast_def)

subsection \<open>A failed call to the scorer\<close>



end
